theory Spec2Isabelle
  imports Complex_Main "HOL-Library.AList"
begin

section \<open>The BoiledEgg handler (\<^verbatim>\<open>boiledegg_handler.py\<close>) and its service route (\<^verbatim>\<open>main.py\<close>)\<close>

text \<open>
  The handler turns a SMILES string into the point (TPSA, WLogP), tests the point against
  two polygons and reports the requested properties. Parsing, the two descriptors, the
  polygons and the containment test come from RDKit, \<^verbatim>\<open>boiled_egg\<close> and Shapely: they are
  not part of the repository and appear here as the fields of a record of library
  functions, over which every theorem is universally quantified.

  Python strings are modelled by \<open>string\<close>, dictionaries by association lists in
  insertion order. Python floats are idealised as rational numbers: every finite float
  is one, and rounding is exact here, where Python returns the float nearest to the
  rounded value.
\<close>

subsection \<open>The external libraries\<close>

type_synonym point = "rat \<times> rat"

text \<open>
  \<^item> \<open>MolFromSmiles\<close> is \<^verbatim>\<open>Chem.MolFromSmiles\<close>: \<open>None\<close> for a string RDKit cannot parse.
  \<^item> \<open>TPSA L mol flag\<close> is \<^verbatim>\<open>Descriptors.TPSA(mol, includeSandP=flag)\<close> and \<open>MolLogP\<close> is
    \<^verbatim>\<open>Descriptors.MolLogP\<close>, both on a molecule that was parsed.
  \<^item> \<open>Polygon_BBB\<close> and \<open>Polygon_GIA\<close> are \<^verbatim>\<open>Polygon(BoiledEggBBB.ml_tensor)\<close> and
    \<^verbatim>\<open>Polygon(BoiledEggGIA.ml_tensor)\<close>.
  \<^item> \<open>Point_within L point m\<close> is \<^verbatim>\<open>point.within(m)\<close>, where \<open>m\<close> is the value stored in
    \<^verbatim>\<open>self.models\<close> (\<open>None\<close> before the models are loaded). \<open>Inl msg\<close> says that the call
    raised an exception \<open>e\<close> with \<^verbatim>\<open>str(e) = msg\<close>.
\<close>

record ('mol, 'poly) libraries =
  MolFromSmiles :: "string \<Rightarrow> 'mol option"
  TPSA :: "'mol \<Rightarrow> bool \<Rightarrow> rat"
  MolLogP :: "'mol \<Rightarrow> rat"
  Polygon_BBB :: 'poly
  Polygon_GIA :: 'poly
  Point_within :: "point \<Rightarrow> 'poly option \<Rightarrow> string + bool"

subsection \<open>Python values and built-ins\<close>

text \<open>
  \<^verbatim>\<open>round(x, ndigits)\<close> on a float: to the nearest multiple of \<open>10 ^ -ndigits\<close>, a tie
  going to the even neighbour.
\<close>

definition py_round :: "rat \<Rightarrow> nat \<Rightarrow> rat" where
  "py_round x ndigits =
     (let y = x * 10 ^ ndigits;
          n = \<lfloor>y\<rfloor>;
          d = y - of_int n
      in of_int (if d < 1 / 2 then n
                 else if 1 / 2 < d then n + 1
                 else if even n then n else n + 1) / 10 ^ ndigits)"

text \<open>The values stored in \<^verbatim>\<open>batch_preds\<close>: a bool from \<^verbatim>\<open>within\<close>, or a float.\<close>

datatype pyval = PyBool bool | PyFloat rat

text \<open>\<^verbatim>\<open>float(v)\<close>: \<^verbatim>\<open>float(True)\<close> is 1.0 and \<^verbatim>\<open>float(False)\<close> is 0.0.\<close>

fun float :: "pyval \<Rightarrow> rat" where
  "float (PyBool b) = (if b then 1 else 0)"
| "float (PyFloat x) = x"

text \<open>
  \<^verbatim>\<open>d[k]\<close> on a dictionary with string keys: a missing key raises \<^verbatim>\<open>KeyError(k)\<close>, whose
  \<^verbatim>\<open>str\<close> is the key between single quotes (for the quote-free keys used here).
\<close>

definition getitem :: "(string \<times> 'a) list \<Rightarrow> string \<Rightarrow> string + 'a" where
  "getitem d k =
     (case map_of d k of
        None \<Rightarrow> Inl ([CHR 0x27] @ k @ [CHR 0x27])
      | Some v \<Rightarrow> Inr v)"

text \<open>
  \<^verbatim>\<open>str.isspace\<close> on one character and \<^verbatim>\<open>str.strip()\<close>, for code points below 256.
\<close>

definition isspace :: "char \<Rightarrow> bool" where
  "isspace c =
     (let n = (of_char c :: nat)
      in (9 \<le> n \<and> n \<le> 13) \<or> (28 \<le> n \<and> n \<le> 32) \<or> n = 133 \<or> n = 160)"

definition strip :: "string \<Rightarrow> string" where
  "strip s = rev (dropWhile isspace (rev (dropWhile isspace s)))"

subsection \<open>Result shapes\<close>

text \<open>The inner dictionary \<^verbatim>\<open>{"property", "status", "results", "error"}\<close>.\<close>

record property_result =
  property :: string
  prop_status :: string
  prop_results :: rat
  prop_error :: "string option"

text \<open>The outer dictionary \<^verbatim>\<open>{"smiles", "status", "results", "error"}\<close>.\<close>

record res_entry =
  smiles :: string
  status :: string
  results :: "(string \<times> property_result) list"
  error :: "string option"

text \<open>
  What \<^verbatim>\<open>process_multiple_properties\<close> returns is either one dictionary or a Python list
  of dictionaries.
\<close>

datatype retval = Dict res_entry | List "res_entry list"

text \<open>
  Exceptions that leave a function: RDKit's \<^verbatim>\<open>ArgumentError\<close> for a descriptor called on
  \<^verbatim>\<open>None\<close>, and the \<^verbatim>\<open>AttributeError\<close> of \<^verbatim>\<open>.get\<close> on a list.
\<close>

datatype exn = ArgumentError | AttributeError

subsection \<open>The handler\<close>

text \<open>
  The mutable state: the handler's \<^verbatim>\<open>self.models\<close> and what has been printed to
  standard output, one entry per \<^verbatim>\<open>print\<close>.
\<close>

record 'poly state =
  models :: "(string \<times> 'poly option) list"
  stdout :: "string list"

definition AVAILABLE_PROPERTIES :: "string list" where
  "AVAILABLE_PROPERTIES = [''BBB'', ''GIA'', ''TPSA'', ''WLogP'']"

definition load_models :: "('mol, 'poly) libraries \<Rightarrow> 'poly state \<Rightarrow> 'poly state" where
  "load_models L s =
     s\<lparr>models :=
         AList.update ''GIA'' (Some (Polygon_GIA L))
           (AList.update ''BBB'' (Some (Polygon_BBB L)) (models s))\<rparr>"

text \<open>\<^verbatim>\<open>BoiledEggHandler()\<close>, started with \<open>out\<close> already printed.\<close>

definition BoiledEggHandler :: "('mol, 'poly) libraries \<Rightarrow> string list \<Rightarrow> 'poly state" where
  "BoiledEggHandler L out =
     load_models L
       \<lparr>models = [(''BBB'', None), (''GIA'', None), (''TPSA'', None), (''WLogP'', None)],
        stdout = out\<rparr>"

text \<open>
  The four \<^verbatim>\<open>if ... in valid_props\<close> statements that fill \<^verbatim>\<open>batch_preds\<close>, in the order of
  the source. \<open>Inl msg\<close>: an exception with that \<^verbatim>\<open>str\<close> was raised (a missing key of
  \<^verbatim>\<open>self.models\<close>, or the containment test).
\<close>

definition region_pred ::
  "('mol, 'poly) libraries \<Rightarrow> (string \<times> 'poly option) list \<Rightarrow> point \<Rightarrow> string \<Rightarrow>
   (string \<times> pyval) list \<Rightarrow> string + (string \<times> pyval) list" where
  "region_pred L ms pt name batch_preds =
     (case getitem ms name of
        Inl msg \<Rightarrow> Inl msg
      | Inr m \<Rightarrow>
          (case Point_within L pt m of
             Inl msg \<Rightarrow> Inl msg
           | Inr b \<Rightarrow> Inr (AList.update name (PyBool b) batch_preds)))"

definition fill_batch_preds ::
  "('mol, 'poly) libraries \<Rightarrow> (string \<times> 'poly option) list \<Rightarrow> string list \<Rightarrow>
   rat \<Rightarrow> rat \<Rightarrow> point \<Rightarrow> string + (string \<times> pyval) list" where
  "fill_batch_preds L ms valid_props tpsa wlogp pt =
     (case (if ''BBB'' \<in> set valid_props then region_pred L ms pt ''BBB'' [] else Inr []) of
        Inl msg \<Rightarrow> Inl msg
      | Inr bp1 \<Rightarrow>
          (case (if ''GIA'' \<in> set valid_props then region_pred L ms pt ''GIA'' bp1
                 else Inr bp1) of
             Inl msg \<Rightarrow> Inl msg
           | Inr bp2 \<Rightarrow>
               (let bp3 = (if ''TPSA'' \<in> set valid_props
                           then AList.update ''TPSA'' (PyFloat tpsa) bp2 else bp2);
                    bp4 = (if ''WLogP'' \<in> set valid_props
                           then AList.update ''WLogP'' (PyFloat wlogp) bp3 else bp3)
                in Inr bp4)))"

text \<open>The loop \<^verbatim>\<open>for prop in valid_props: res_entry["results"][prop] = {...}\<close>.\<close>

fun fill_results ::
  "(string \<times> pyval) list \<Rightarrow> string list \<Rightarrow> res_entry \<Rightarrow> string + res_entry" where
  "fill_results batch_preds [] r = Inr r"
| "fill_results batch_preds (prop # rest) r =
     (case getitem batch_preds prop of
        Inl msg \<Rightarrow> Inl msg
      | Inr v \<Rightarrow>
          fill_results batch_preds rest
            (r\<lparr>results :=
                 AList.update prop
                   \<lparr>property = prop, prop_status = ''success'',
                    prop_results = float v, prop_error = None\<rparr>
                   (results r)\<rparr>))"

text \<open>The body of the \<^verbatim>\<open>try\<close> statement.\<close>

definition try_body ::
  "('mol, 'poly) libraries \<Rightarrow> (string \<times> 'poly option) list \<Rightarrow> string \<Rightarrow> string list \<Rightarrow>
   rat \<Rightarrow> rat \<Rightarrow> point \<Rightarrow> string + res_entry" where
  "try_body L ms smi valid_props tpsa wlogp pt =
     (case fill_batch_preds L ms valid_props tpsa wlogp pt of
        Inl msg \<Rightarrow> Inl msg
      | Inr batch_preds \<Rightarrow>
          fill_results batch_preds valid_props
            \<lparr>smiles = smi, status = ''success'', results = [], error = None\<rparr>)"

text \<open>
  The line printed for an unparseable string; the warning sign and its variation
  selector are written as their UTF-8 bytes.
\<close>

definition skipping_message :: "string \<Rightarrow> string" where
  "skipping_message smi =
     [CHR 0xE2, CHR 0x9A, CHR 0xA0, CHR 0xEF, CHR 0xB8, CHR 0x8F]
       @ '' Skipping unparseable SMILES: '' @ smi"

text \<open>
  \<^verbatim>\<open>process_multiple_properties\<close>. After the print for \<^verbatim>\<open>mol is None\<close> the source goes
  on to \<^verbatim>\<open>Descriptors.TPSA(mol, includeSandP=True)\<close>, outside the \<^verbatim>\<open>try\<close>: RDKit rejects
  \<^verbatim>\<open>None\<close> with an \<^verbatim>\<open>ArgumentError\<close>, which leaves the function.
\<close>

definition process_multiple_properties ::
  "('mol, 'poly) libraries \<Rightarrow> string \<Rightarrow> string list \<Rightarrow> 'poly state \<Rightarrow>
   (exn + retval) \<times> 'poly state" where
  "process_multiple_properties L smi property_list s =
     (if smi = [] then (Inr (List []), s)
      else
        let valid_props = filter (\<lambda>p. p \<in> set AVAILABLE_PROPERTIES) property_list
        in case MolFromSmiles L smi of
             None \<Rightarrow> (Inl ArgumentError, s\<lparr>stdout := stdout s @ [skipping_message smi]\<rparr>)
           | Some mol \<Rightarrow>
               (let tpsa = py_round (TPSA L mol True) 2;
                    wlogp = py_round (MolLogP L mol) 2;
                    pt = (tpsa, wlogp)
                in case try_body L (models s) smi valid_props tpsa wlogp pt of
                     Inr res_entry \<Rightarrow> (Inr (Dict res_entry), s)
                   | Inl msg \<Rightarrow>
                       (Inr (List [\<lparr>smiles = smi, status = ''error'', results = [],
                                    error = Some msg\<rparr>]), s)))"

text \<open>
  \<^verbatim>\<open>process_multiple_properties_batch\<close>: the \<^verbatim>\<open>for\<close> loop with \<^verbatim>\<open>res_ls.append\<close>; an
  exception of one call ends the loop and leaves the function.
\<close>

fun batch_loop ::
  "('mol, 'poly) libraries \<Rightarrow> string list \<Rightarrow> string list \<Rightarrow> retval list \<Rightarrow> 'poly state \<Rightarrow>
   (exn + retval list) \<times> 'poly state" where
  "batch_loop L [] property_list res_ls s = (Inr res_ls, s)"
| "batch_loop L (smi # rest) property_list res_ls s =
     (case process_multiple_properties L smi property_list s of
        (Inl e, s') \<Rightarrow> (Inl e, s')
      | (Inr one_smi_res_obj, s') \<Rightarrow>
          batch_loop L rest property_list (res_ls @ [one_smi_res_obj]) s')"

definition process_multiple_properties_batch ::
  "('mol, 'poly) libraries \<Rightarrow> string list \<Rightarrow> string list \<Rightarrow> 'poly state \<Rightarrow>
   (exn + retval list) \<times> 'poly state" where
  "process_multiple_properties_batch L smiles_list property_list s =
     batch_loop L smiles_list property_list [] s"

subsection \<open>The route \<^verbatim>\<open>/smi\<close>\<close>

record SMILESRequest =
  request_smiles :: string
  request_property :: "string list option"

text \<open>
  How a request ends when it does not produce a response: an \<^verbatim>\<open>HTTPException\<close> with its
  status code and detail, or an exception nobody handles.
\<close>

datatype fault = HTTPException nat "string option" | Unhandled exn

definition predict_property ::
  "('mol, 'poly) libraries \<Rightarrow> SMILESRequest \<Rightarrow> 'poly state \<Rightarrow>
   (fault + res_entry) \<times> 'poly state" where
  "predict_property L request s =
     (if request_smiles request = [] \<or> strip (request_smiles request) = []
      then (Inl (HTTPException 400 (Some ''SMILES string cannot be empty'')), s)
      else
        let prop_list =
              (case request_property request of
                 None \<Rightarrow> AVAILABLE_PROPERTIES
               | Some ps \<Rightarrow> if ps \<noteq> [] then ps else AVAILABLE_PROPERTIES)
        in case process_multiple_properties L (strip (request_smiles request)) prop_list s of
             (Inl e, s') \<Rightarrow> (Inl (Unhandled e), s')
           | (Inr (List rs), s') \<Rightarrow> (Inl (Unhandled AttributeError), s')
           | (Inr (Dict result), s') \<Rightarrow>
               if status result = ''error''
               then (Inl (HTTPException 500 (error result)), s')
               else (Inr result, s'))"

subsection \<open>A stand-in for the libraries\<close>

text \<open>
  Concrete runs need concrete library functions. \<open>demo_libs\<close> knows two molecules,
  ethanol and benzene, with RDKit's descriptor values for them, and rejects every other
  string; its polygons are rectangles given by their four vertices, and its containment
  test (strictly inside the rectangle) never raises on a polygon. \<open>raising_libs\<close> differs only in a containment test that always raises.
\<close>

definition demo_within :: "point \<Rightarrow> point list option \<Rightarrow> string + bool" where
  "demo_within pt m =
     (case m of
        None \<Rightarrow> Inl ''no geometry''
      | Some vs \<Rightarrow>
          (case vs of
             [a, b, c, d] \<Rightarrow>
               Inr (fst a < fst pt \<and> fst pt < fst c \<and> snd a < snd pt \<and> snd pt < snd c)
           | _ \<Rightarrow> Inr False))"

definition demo_libs :: "(string, point list) libraries" where
  "demo_libs =
     \<lparr>MolFromSmiles = (\<lambda>s. if s = ''CCO'' \<or> s = ''c1ccccc1'' then Some s else None),
      TPSA = (\<lambda>mol includeSandP. if mol = ''CCO'' then 2023 / 100 else 0),
      MolLogP = (\<lambda>mol. if mol = ''CCO'' then - 14 / 10000 else 16866 / 10000),
      Polygon_BBB = [(- 1, - 1), (80, - 1), (80, 6), (- 1, 6)],
      Polygon_GIA = [(- 1, - 2), (140, - 2), (140, 6), (- 1, 6)],
      Point_within = demo_within\<rparr>"

definition raising_libs :: "(string, point list) libraries" where
  "raising_libs = demo_libs\<lparr>Point_within := (\<lambda>pt m. Inl ''geometry failure'')\<rparr>"

definition demo_state :: "point list state" where
  "demo_state = BoiledEggHandler demo_libs []"

subsection \<open>Notions used in the properties\<close>

text \<open>The state has both polygons in \<^verbatim>\<open>self.models\<close>, as after \<^verbatim>\<open>__init__\<close>.\<close>

definition loaded :: "('mol, 'poly) libraries \<Rightarrow> 'poly state \<Rightarrow> bool" where
  "loaded L s =
     (map_of (models s) ''BBB'' = Some (Some (Polygon_BBB L)) \<and>
      map_of (models s) ''GIA'' = Some (Some (Polygon_GIA L)))"

text \<open>
  The point the handler classifies for a parsed molecule: both descriptors rounded to
  two decimal places.
\<close>

definition point_of :: "('mol, 'poly) libraries \<Rightarrow> 'mol \<Rightarrow> point" where
  "point_of L mol = (py_round (TPSA L mol True) 2, py_round (MolLogP L mol) 2)"

text \<open>The entry the loop stores for a property whose prediction is \<open>v\<close>.\<close>

definition success_entry :: "string \<Rightarrow> rat \<Rightarrow> property_result" where
  "success_entry prop x =
     \<lparr>property = prop, prop_status = ''success'', prop_results = x, prop_error = None\<rparr>"

text \<open>
  The \<^verbatim>\<open>"smiles"\<close> and \<^verbatim>\<open>"status"\<close> fields of a returned value; a Python list has
  neither.
\<close>

fun smiles_field :: "retval \<Rightarrow> string option" where
  "smiles_field (Dict r) = Some (smiles r)"
| "smiles_field (List rs) = None"

fun status_field :: "retval \<Rightarrow> string option" where
  "status_field (Dict r) = Some (status r)"
| "status_field (List rs) = None"

text \<open>
  The outcome is a record with status \<^verbatim>\<open>error\<close> and an empty results mapping.
\<close>

definition is_error_result :: "exn + retval \<Rightarrow> bool" where
  "is_error_result out =
     (case out of
        Inl e \<Rightarrow> False
      | Inr v \<Rightarrow> (case v of Dict r \<Rightarrow> status r = ''error'' \<and> results r = [] | List rs \<Rightarrow> False))"

text \<open>
  A batch outcome keeps count and order: it is a list of as many entries as inputs, the
  \<open>i\<close>-th with \<^verbatim>\<open>smiles\<close> field equal to the \<open>i\<close>-th input.
\<close>

definition order_and_count_preserved :: "string list \<Rightarrow> exn + retval list \<Rightarrow> bool" where
  "order_and_count_preserved smiles_list out =
     (case out of
        Inl e \<Rightarrow> False
      | Inr rs \<Rightarrow> map smiles_field rs = map Some smiles_list)"

text \<open>The status fields of the entries of a batch outcome, \<open>None\<close> if the batch raised.\<close>

definition batch_statuses :: "exn + retval list \<Rightarrow> string option list option" where
  "batch_statuses out =
     (case out of Inl e \<Rightarrow> None | Inr rs \<Rightarrow> Some (map status_field rs))"

text \<open>
  Python's \<^verbatim>\<open>==\<close> on two outcomes: dictionaries are compared as mappings, whatever the
  order of insertion (the keys of \<^verbatim>\<open>results\<close> are distinct in every outcome of the
  handler, so comparing the sets of items compares the mappings).
\<close>

definition res_entry_eq :: "res_entry \<Rightarrow> res_entry \<Rightarrow> bool" where
  "res_entry_eq r r' =
     (smiles r = smiles r' \<and> status r = status r' \<and> set (results r) = set (results r') \<and>
      error r = error r')"

fun py_eq :: "exn + retval \<Rightarrow> exn + retval \<Rightarrow> bool" where
  "py_eq (Inr (Dict r)) (Inr (Dict r')) = res_entry_eq r r'"
| "py_eq (Inr (List rs)) (Inr (List rs')) = list_all2 res_entry_eq rs rs'"
| "py_eq (Inl e) (Inl e') = (e = e')"
| "py_eq out out' = False"

section \<open>Auxiliary facts\<close>

lemma valid_props_set:
  "set (filter (\<lambda>p. p \<in> set AVAILABLE_PROPERTIES) P) = set P \<inter> set AVAILABLE_PROPERTIES"
  by auto

lemma loaded_BoiledEggHandler: "loaded L (BoiledEggHandler L out)"
  by (simp add: loaded_def BoiledEggHandler_def load_models_def)

lemma getitem_loaded:
  assumes "loaded L s"
  shows "getitem (models s) ''BBB'' = Inr (Some (Polygon_BBB L))"
    and "getitem (models s) ''GIA'' = Inr (Some (Polygon_GIA L))"
  using assms by (simp_all add: loaded_def getitem_def)

lemma fill_batch_preds_Inr:
  assumes "''BBB'' \<in> set vp \<Longrightarrow> getitem ms ''BBB'' = Inr mb \<and> Point_within L pt mb = Inr b1"
    and "''GIA'' \<in> set vp \<Longrightarrow> getitem ms ''GIA'' = Inr mg \<and> Point_within L pt mg = Inr b2"
  shows "\<exists>bp. fill_batch_preds L ms vp t l pt = Inr bp \<and>
           map_of bp ''BBB'' = (if ''BBB'' \<in> set vp then Some (PyBool b1) else None) \<and>
           map_of bp ''GIA'' = (if ''GIA'' \<in> set vp then Some (PyBool b2) else None) \<and>
           map_of bp ''TPSA'' = (if ''TPSA'' \<in> set vp then Some (PyFloat t) else None) \<and>
           map_of bp ''WLogP'' = (if ''WLogP'' \<in> set vp then Some (PyFloat l) else None)"
  using assms
  by (simp add: fill_batch_preds_def region_pred_def Let_def AList.update_conv')

lemma fill_batch_preds_Inl:
  assumes "''BBB'' \<in> set vp" and "getitem ms ''BBB'' = Inr mb" and "Point_within L pt mb = Inl msg"
  shows "fill_batch_preds L ms vp t l pt = Inl msg"
  using assms by (simp add: fill_batch_preds_def region_pred_def)

lemma fill_results_Inr:
  assumes "\<forall>p\<in>set vp. \<exists>v. map_of bp p = Some v"
  shows "\<exists>r'. fill_results bp vp r = Inr r' \<and> smiles r' = smiles r \<and> status r' = status r \<and>
           error r' = error r \<and>
           map_of (results r') =
             (\<lambda>k. if k \<in> set vp then Some (success_entry k (float (the (map_of bp k))))
                  else map_of (results r) k) \<and>
           fst ` set (results r') = set vp \<union> fst ` set (results r) \<and>
           (distinct (map fst (results r)) \<longrightarrow> distinct (map fst (results r')))"
  using assms
proof (induction vp arbitrary: r)
  case Nil
  then show ?case by simp
next
  case (Cons p vp)
  from Cons.prems obtain v where v: "map_of bp p = Some v" by auto
  let ?r = "r\<lparr>results := AList.update p (success_entry p (float v)) (results r)\<rparr>"
  from Cons.prems have "\<forall>p\<in>set vp. \<exists>v. map_of bp p = Some v" by simp
  from Cons.IH [OF this, of ?r] obtain r' where
    r': "fill_results bp vp ?r = Inr r'" "smiles r' = smiles r" "status r' = status r"
      "error r' = error r"
      "map_of (results r') =
         (\<lambda>k. if k \<in> set vp then Some (success_entry k (float (the (map_of bp k))))
              else map_of (results ?r) k)"
      "fst ` set (results r') = set vp \<union> fst ` set (results ?r)"
      "distinct (map fst (results ?r)) \<longrightarrow> distinct (map fst (results r'))"
    by auto
  have "fill_results bp (p # vp) r = Inr r'"
    using v r'(1) by (simp add: getitem_def success_entry_def)
  moreover have "map_of (results r') =
      (\<lambda>k. if k \<in> set (p # vp) then Some (success_entry k (float (the (map_of bp k))))
           else map_of (results r) k)"
    using r'(5) v by (auto simp: fun_eq_iff AList.update_conv')
  moreover have "fst ` set (results r') = set (p # vp) \<union> fst ` set (results r)"
    using r'(6) by (auto simp: AList.dom_update)
  moreover have "distinct (map fst (results r)) \<longrightarrow> distinct (map fst (results r'))"
    using r'(7) by (simp add: AList.distinct_update)
  ultimately show ?case using r'(2-4) by blast
qed


lemma pmp_empty: "process_multiple_properties L [] P s = (Inr (List []), s)"
  by (simp add: process_multiple_properties_def)

lemma pmp_models: "models (snd (process_multiple_properties L smi P s)) = models s"
  by (simp add: process_multiple_properties_def Let_def split: option.splits sum.splits)

lemma pmp_fst_models:
  "models s1 = models s2 \<Longrightarrow>
   fst (process_multiple_properties L smi P s1) = fst (process_multiple_properties L smi P s2)"
  by (simp add: process_multiple_properties_def Let_def split: option.splits sum.splits)

lemma pmp_Inr_state:
  "fst (process_multiple_properties L smi P s) = Inr r \<Longrightarrow>
   snd (process_multiple_properties L smi P s) = s"
  by (simp add: process_multiple_properties_def Let_def split: option.splits sum.splits if_splits)

lemma pmp_unparseable:
  "smi \<noteq> [] \<Longrightarrow> MolFromSmiles L smi = None \<Longrightarrow>
   process_multiple_properties L smi P s =
     (Inl ArgumentError, s\<lparr>stdout := stdout s @ [skipping_message smi]\<rparr>)"
  by (simp add: process_multiple_properties_def)

lemma pmp_parsed:
  "smi \<noteq> [] \<Longrightarrow> MolFromSmiles L smi = Some mol \<Longrightarrow>
   process_multiple_properties L smi P s =
     (case try_body L (models s) smi (filter (\<lambda>p. p \<in> set AVAILABLE_PROPERTIES) P)
             (fst (point_of L mol)) (snd (point_of L mol)) (point_of L mol) of
        Inr res_entry \<Rightarrow> (Inr (Dict res_entry), s)
      | Inl msg \<Rightarrow>
          (Inr (List [\<lparr>smiles = smi, status = ''error'', results = [], error = Some msg\<rparr>]), s))"
  by (simp add: process_multiple_properties_def point_of_def Let_def)

lemma try_body_success:
  assumes "loaded L s"
    and vp: "set vp \<subseteq> set AVAILABLE_PROPERTIES"
    and "''BBB'' \<in> set vp \<Longrightarrow> Point_within L pt (Some (Polygon_BBB L)) = Inr b1"
    and "''GIA'' \<in> set vp \<Longrightarrow> Point_within L pt (Some (Polygon_GIA L)) = Inr b2"
  shows "\<exists>r. try_body L (models s) smi vp t l pt = Inr r \<and>
           smiles r = smi \<and> status r = ''success'' \<and> error r = None \<and>
           fst ` set (results r) = set vp \<and> distinct (map fst (results r)) \<and>
           map_of (results r) ''BBB'' =
             (if ''BBB'' \<in> set vp then Some (success_entry ''BBB'' (if b1 then 1 else 0)) else None) \<and>
           map_of (results r) ''GIA'' =
             (if ''GIA'' \<in> set vp then Some (success_entry ''GIA'' (if b2 then 1 else 0)) else None) \<and>
           map_of (results r) ''TPSA'' =
             (if ''TPSA'' \<in> set vp then Some (success_entry ''TPSA'' t) else None) \<and>
           map_of (results r) ''WLogP'' =
             (if ''WLogP'' \<in> set vp then Some (success_entry ''WLogP'' l) else None) \<and>
           (\<forall>e\<in>snd ` set (results r). prop_status e = ''success'' \<and> prop_error e = None)"
proof -
  from fill_batch_preds_Inr [of vp "models s" "Some (Polygon_BBB L)" L pt b1
      "Some (Polygon_GIA L)" b2 t l] assms(3,4) getitem_loaded [OF assms(1)]
  obtain bp where bp: "fill_batch_preds L (models s) vp t l pt = Inr bp"
    "map_of bp ''BBB'' = (if ''BBB'' \<in> set vp then Some (PyBool b1) else None)"
    "map_of bp ''GIA'' = (if ''GIA'' \<in> set vp then Some (PyBool b2) else None)"
    "map_of bp ''TPSA'' = (if ''TPSA'' \<in> set vp then Some (PyFloat t) else None)"
    "map_of bp ''WLogP'' = (if ''WLogP'' \<in> set vp then Some (PyFloat l) else None)"
    by auto
  have all: "\<forall>p\<in>set vp. \<exists>v. map_of bp p = Some v"
  proof
    fix p assume p: "p \<in> set vp"
    with vp have "p = ''BBB'' \<or> p = ''GIA'' \<or> p = ''TPSA'' \<or> p = ''WLogP''"
      by (auto simp: AVAILABLE_PROPERTIES_def)
    with p bp(2-5) show "\<exists>v. map_of bp p = Some v" by auto
  qed
  let ?r0 = "\<lparr>smiles = smi, status = ''success'', results = [], error = None\<rparr>"
  have "\<exists>r. fill_results bp vp ?r0 = Inr r \<and> smiles r = smi \<and> status r = ''success'' \<and>
      error r = None \<and>
      map_of (results r) =
        (\<lambda>k. if k \<in> set vp then Some (success_entry k (float (the (map_of bp k)))) else None) \<and>
      fst ` set (results r) = set vp \<and> distinct (map fst (results r))"
    using fill_results_Inr [OF all, of ?r0] by (simp cong: if_cong)
  then obtain r where
    r: "fill_results bp vp ?r0 = Inr r" "smiles r = smi" "status r = ''success''"
      "error r = None"
      "map_of (results r) =
         (\<lambda>k. if k \<in> set vp then Some (success_entry k (float (the (map_of bp k)))) else None)"
      "fst ` set (results r) = set vp" "distinct (map fst (results r))"
    by blast
  have ent: "\<forall>e\<in>snd ` set (results r). prop_status e = ''success'' \<and> prop_error e = None"
  proof
    fix e assume "e \<in> snd ` set (results r)"
    then obtain k where "(k, e) \<in> set (results r)" by auto
    with r(7) have "map_of (results r) k = Some e" by simp
    with r(5) show "prop_status e = ''success'' \<and> prop_error e = None"
      by (auto simp: success_entry_def split: if_splits)
  qed
  have "try_body L (models s) smi vp t l pt = Inr r"
    using bp(1) r(1) by (simp add: try_body_def)
  moreover have "map_of (results r) ''BBB'' =
      (if ''BBB'' \<in> set vp then Some (success_entry ''BBB'' (if b1 then 1 else 0)) else None)"
    using r(5) bp(2) by simp
  moreover have "map_of (results r) ''GIA'' =
      (if ''GIA'' \<in> set vp then Some (success_entry ''GIA'' (if b2 then 1 else 0)) else None)"
    using r(5) bp(3) by simp
  moreover have "map_of (results r) ''TPSA'' =
      (if ''TPSA'' \<in> set vp then Some (success_entry ''TPSA'' t) else None)"
    using r(5) bp(4) by simp
  moreover have "map_of (results r) ''WLogP'' =
      (if ''WLogP'' \<in> set vp then Some (success_entry ''WLogP'' l) else None)"
    using r(5) bp(5) by simp
  ultimately show ?thesis using r(2-4,6,7) ent by blast
qed

lemma pmp_success:
  assumes "smi \<noteq> []" and "MolFromSmiles L smi = Some mol" and "loaded L s"
    and "''BBB'' \<in> set P \<Longrightarrow> Point_within L (point_of L mol) (Some (Polygon_BBB L)) = Inr b1"
    and "''GIA'' \<in> set P \<Longrightarrow> Point_within L (point_of L mol) (Some (Polygon_GIA L)) = Inr b2"
  shows "\<exists>r. process_multiple_properties L smi P s = (Inr (Dict r), s) \<and>
           smiles r = smi \<and> status r = ''success'' \<and> error r = None \<and>
           fst ` set (results r) = set P \<inter> set AVAILABLE_PROPERTIES \<and>
           distinct (map fst (results r)) \<and>
           map_of (results r) ''BBB'' =
             (if ''BBB'' \<in> set P then Some (success_entry ''BBB'' (if b1 then 1 else 0)) else None) \<and>
           map_of (results r) ''GIA'' =
             (if ''GIA'' \<in> set P then Some (success_entry ''GIA'' (if b2 then 1 else 0)) else None) \<and>
           map_of (results r) ''TPSA'' =
             (if ''TPSA'' \<in> set P then Some (success_entry ''TPSA'' (fst (point_of L mol))) else None) \<and>
           map_of (results r) ''WLogP'' =
             (if ''WLogP'' \<in> set P then Some (success_entry ''WLogP'' (snd (point_of L mol))) else None) \<and>
           (\<forall>e\<in>snd ` set (results r). prop_status e = ''success'' \<and> prop_error e = None)"
proof -
  let ?vp = "filter (\<lambda>p. p \<in> set AVAILABLE_PROPERTIES) P"
  have mem: "\<And>k. k \<in> set AVAILABLE_PROPERTIES \<Longrightarrow> (k \<in> set ?vp) = (k \<in> set P)" by simp
  have av: "''BBB'' \<in> set AVAILABLE_PROPERTIES" "''GIA'' \<in> set AVAILABLE_PROPERTIES"
    "''TPSA'' \<in> set AVAILABLE_PROPERTIES" "''WLogP'' \<in> set AVAILABLE_PROPERTIES"
    by (simp_all add: AVAILABLE_PROPERTIES_def)
  have sub: "set ?vp \<subseteq> set AVAILABLE_PROPERTIES" by auto
  have b: "''BBB'' \<in> set ?vp \<Longrightarrow> Point_within L (point_of L mol) (Some (Polygon_BBB L)) = Inr b1"
    using assms(4) by simp
  have g: "''GIA'' \<in> set ?vp \<Longrightarrow> Point_within L (point_of L mol) (Some (Polygon_GIA L)) = Inr b2"
    using assms(5) by simp
  from try_body_success [OF assms(3) sub b g, of smi "fst (point_of L mol)" "snd (point_of L mol)"]
  obtain r where r: "try_body L (models s) smi ?vp (fst (point_of L mol)) (snd (point_of L mol))
        (point_of L mol) = Inr r"
    "smiles r = smi" "status r = ''success''" "error r = None"
    "fst ` set (results r) = set ?vp" "distinct (map fst (results r))"
    "map_of (results r) ''BBB'' =
       (if ''BBB'' \<in> set ?vp then Some (success_entry ''BBB'' (if b1 then 1 else 0)) else None)"
    "map_of (results r) ''GIA'' =
       (if ''GIA'' \<in> set ?vp then Some (success_entry ''GIA'' (if b2 then 1 else 0)) else None)"
    "map_of (results r) ''TPSA'' =
       (if ''TPSA'' \<in> set ?vp then Some (success_entry ''TPSA'' (fst (point_of L mol))) else None)"
    "map_of (results r) ''WLogP'' =
       (if ''WLogP'' \<in> set ?vp then Some (success_entry ''WLogP'' (snd (point_of L mol))) else None)"
    "\<forall>e\<in>snd ` set (results r). prop_status e = ''success'' \<and> prop_error e = None"
    by blast
  have "process_multiple_properties L smi P s = (Inr (Dict r), s)"
    using r(1) by (simp add: pmp_parsed [OF assms(1,2)])
  moreover have "fst ` set (results r) = set P \<inter> set AVAILABLE_PROPERTIES"
    using r(5) by (simp only: valid_props_set)
  ultimately show ?thesis
    using r(2-4,6,11) r(7-10) [unfolded mem [OF av(1)] mem [OF av(2)] mem [OF av(3)] mem [OF av(4)]]
    by blast
qed

section \<open>Properties of the handler\<close>

text \<open>
  C3. The guard \<^verbatim>\<open>if not smi: return []\<close>: for the empty string the handler returns the
  empty list, whatever the property list, and leaves the state as it was. The guard is
  taken by the empty string only: no other string, a whitespace-only one included, has
  the empty list as outcome.
\<close>

theorem classify_empty_returns_empty_list:
  "process_multiple_properties L [] P s = (Inr (List []), s) \<and>
   (smi \<noteq> [] \<longrightarrow> fst (process_multiple_properties L smi P s) \<noteq> Inr (List []))"
  by (simp add: process_multiple_properties_def Let_def split: option.splits sum.splits)

theorem classify_empty_returns_empty_list_witness:
  "process_multiple_properties demo_libs [] [''TPSA''] demo_state = (Inr (List []), demo_state) \<and>
   ''  '' \<noteq> [] \<and>
   fst (process_multiple_properties demo_libs ''  '' [''TPSA''] demo_state) \<noteq> Inr (List [])"
  using classify_empty_returns_empty_list [of demo_libs "[''TPSA'']" demo_state "''  ''"]
  by simp

theorem classify_empty_not_error_record:
  "\<not> is_error_result (fst (process_multiple_properties demo_libs [] [''TPSA''] demo_state))"
  by (simp add: pmp_empty is_error_result_def)

text \<open>
  C1. An unparseable string is reported on standard output and then handed to the
  descriptor functions all the same, outside the \<^verbatim>\<open>try\<close>: the call ends with the
  \<^verbatim>\<open>ArgumentError\<close> and returns no record.
\<close>

theorem classify_unparseable_raises:
  "smi \<noteq> [] \<Longrightarrow> MolFromSmiles L smi = None \<Longrightarrow>
   fst (process_multiple_properties L smi P s) = Inl ArgumentError"
  by (simp add: pmp_unparseable)

theorem classify_unparseable_raises_witness:
  "''C('' \<noteq> [] \<and> MolFromSmiles demo_libs ''C('' = None \<and>
   fst (process_multiple_properties demo_libs ''C('' [''TPSA''] demo_state) = Inl ArgumentError"
proof -
  have a: "''C('' \<noteq> []" by simp
  have b: "MolFromSmiles demo_libs ''C('' = None" by (simp add: demo_libs_def)
  from classify_unparseable_raises [OF a b] a b show ?thesis by simp
qed

text \<open>
  C8. The outcome of a call depends on the SMILES string, the property list and the
  loaded models only: a call changes nothing of the models, and whatever call came
  before (the same one, or any other) the outcome is the same.
\<close>

theorem classify_deterministic:
  "fst (process_multiple_properties L smi P (snd (process_multiple_properties L smi' P' s))) =
     fst (process_multiple_properties L smi P s) \<and>
   models (snd (process_multiple_properties L smi P s)) = models s"
  using pmp_fst_models [OF pmp_models] pmp_models by blast

theorem classify_deterministic_witness:
  "fst (process_multiple_properties demo_libs ''CCO'' [''TPSA'']
          (snd (process_multiple_properties demo_libs ''C('' [''BBB''] demo_state))) =
     fst (process_multiple_properties demo_libs ''CCO'' [''TPSA''] demo_state) \<and>
   models (snd (process_multiple_properties demo_libs ''CCO'' [''TPSA''] demo_state)) =
     models demo_state"
  using classify_deterministic [of demo_libs "''CCO''" "[''TPSA'']" "''C(''" "[''BBB'']" demo_state]
  by simp

lemma py_round_grid: "\<exists>k::int. py_round x n = of_int k / 10 ^ n"
  by (simp add: py_round_def Let_def)

lemma py_round_error: "\<bar>py_round x n - x\<bar> \<le> 1 / (2 * 10 ^ n)"
proof -
  define y where "y = x * 10 ^ n"
  define k :: int where
    "k = (if y - of_int \<lfloor>y\<rfloor> < 1 / 2 then \<lfloor>y\<rfloor>
          else if 1 / 2 < y - of_int \<lfloor>y\<rfloor> then \<lfloor>y\<rfloor> + 1
          else if even \<lfloor>y\<rfloor> then \<lfloor>y\<rfloor> else \<lfloor>y\<rfloor> + 1)"
  have pos: "(0::rat) < 10 ^ n" by simp
  have fl: "of_int \<lfloor>y\<rfloor> \<le> y" "y < of_int \<lfloor>y\<rfloor> + 1" by linarith+
  have near: "\<bar>of_int k - y\<bar> \<le> 1 / 2"
    unfolding k_def using fl by (auto split: if_splits)
  have r: "py_round x n = of_int k / 10 ^ n"
    unfolding py_round_def Let_def y_def k_def ..
  have "py_round x n - x = of_int k / 10 ^ n - y / 10 ^ n"
    using r by (simp add: y_def)
  then have "py_round x n - x = (of_int k - y) / 10 ^ n"
    by (simp add: diff_divide_distrib)
  then have "\<bar>py_round x n - x\<bar> = \<bar>of_int k - y\<bar> / 10 ^ n" by simp
  also have "\<dots> \<le> (1 / 2) / 10 ^ n"
    by (rule divide_right_mono [OF near]) simp
  finally show ?thesis by simp
qed

lemma not_isl_Inr: "\<not> isl w \<Longrightarrow> w = Inr (projr w)"
  by (cases w) simp_all

text \<open>
  C6. For a non-empty string that the parser accepts, with the models loaded and the
  containment test returning for the regions that are requested, the handler returns a
  record with status \<^verbatim>\<open>success\<close> whose results have as keys exactly the requested
  properties that are among BBB, GIA, TPSA and WLogP, every entry with status
  \<^verbatim>\<open>success\<close>. Other names are dropped, and when none is left the results are empty.
\<close>

theorem classify_success_keys:
  assumes "smi \<noteq> []" and "MolFromSmiles L smi = Some mol" and "loaded L s"
    and "''BBB'' \<in> set P \<Longrightarrow> \<not> isl (Point_within L (point_of L mol) (Some (Polygon_BBB L)))"
    and "''GIA'' \<in> set P \<Longrightarrow> \<not> isl (Point_within L (point_of L mol) (Some (Polygon_GIA L)))"
  shows "\<exists>r. fst (process_multiple_properties L smi P s) = Inr (Dict r) \<and>
           status r = ''success'' \<and> error r = None \<and>
           fst ` set (results r) = set P \<inter> set AVAILABLE_PROPERTIES \<and>
           (\<forall>e\<in>snd ` set (results r). prop_status e = ''success'') \<and>
           (set P \<inter> set AVAILABLE_PROPERTIES = {} \<longrightarrow> results r = [])"
proof -
  from pmp_success [OF assms(1-3) not_isl_Inr [OF assms(4)] not_isl_Inr [OF assms(5)]]
  obtain r where r: "process_multiple_properties L smi P s = (Inr (Dict r), s)"
    "status r = ''success''" "error r = None"
    "fst ` set (results r) = set P \<inter> set AVAILABLE_PROPERTIES"
    "\<forall>e\<in>snd ` set (results r). prop_status e = ''success'' \<and> prop_error e = None"
    by blast
  have "set P \<inter> set AVAILABLE_PROPERTIES = {} \<longrightarrow> results r = []"
    using r(4) by auto
  with r show ?thesis by auto
qed

theorem classify_success_keys_witness:
  "''CCO'' \<noteq> [] \<and> MolFromSmiles demo_libs ''CCO'' = Some ''CCO'' \<and> loaded demo_libs demo_state \<and>
   \<not> isl (Point_within demo_libs (point_of demo_libs ''CCO'') (Some (Polygon_BBB demo_libs))) \<and>
   (\<exists>r. fst (process_multiple_properties demo_libs ''CCO'' [''TPSA'', ''MW'', ''BBB'', ''TPSA'']
             demo_state) = Inr (Dict r) \<and>
        status r = ''success'' \<and> error r = None \<and>
        fst ` set (results r) = {''TPSA'', ''BBB''} \<and>
        (\<forall>e\<in>snd ` set (results r). prop_status e = ''success'') \<and>
        ({''TPSA'', ''BBB''} = {} \<longrightarrow> results r = []))"
proof -
  have a: "''CCO'' \<noteq> []" by simp
  have b: "MolFromSmiles demo_libs ''CCO'' = Some ''CCO''" by (simp add: demo_libs_def)
  have c: "loaded demo_libs demo_state"
    unfolding demo_state_def by (rule loaded_BoiledEggHandler)
  have d: "\<not> isl (Point_within demo_libs (point_of demo_libs ''CCO'') (Some (Polygon_BBB demo_libs)))"
    by (simp add: demo_libs_def demo_within_def)
  have e: "''GIA'' \<in> set [''TPSA'', ''MW'', ''BBB'', ''TPSA''] \<Longrightarrow>
      \<not> isl (Point_within demo_libs (point_of demo_libs ''CCO'') (Some (Polygon_GIA demo_libs)))"
    by simp
  have f: "set [''TPSA'', ''MW'', ''BBB'', ''TPSA''] \<inter> set AVAILABLE_PROPERTIES = {''TPSA'', ''BBB''}"
    by (auto simp: AVAILABLE_PROPERTIES_def)
  show ?thesis
    by (intro conjI a b c d
        classify_success_keys [where P = "[''TPSA'', ''MW'', ''BBB'', ''TPSA'']",
          OF a b c d e, unfolded f])
qed

text \<open>
  C7. For a non-empty string that the parser accepts, the point that is classified is
  \<open>point_of L mol\<close>: the TPSA, computed with \<^verbatim>\<open>includeSandP=True\<close>, and the logP, each
  rounded to two decimal places (a multiple of 1/100 at most 1/200 away). The value
  reported for BBB and for GIA is the answer of the containment test on that point as
  1 or 0, the value reported for TPSA and for WLogP is the rounded descriptor.
\<close>

theorem classify_values:
  assumes "smi \<noteq> []" and "MolFromSmiles L smi = Some mol" and "loaded L s"
    and "''BBB'' \<in> set P \<Longrightarrow>
           Point_within L (point_of L mol) (Some (Polygon_BBB L)) = Inr in_bbb"
    and "''GIA'' \<in> set P \<Longrightarrow>
           Point_within L (point_of L mol) (Some (Polygon_GIA L)) = Inr in_gia"
  shows "\<exists>r. fst (process_multiple_properties L smi P s) = Inr (Dict r) \<and>
           (''BBB'' \<in> set P \<longrightarrow>
              map_of (results r) ''BBB'' = Some (success_entry ''BBB'' (if in_bbb then 1 else 0))) \<and>
           (''GIA'' \<in> set P \<longrightarrow>
              map_of (results r) ''GIA'' = Some (success_entry ''GIA'' (if in_gia then 1 else 0))) \<and>
           (''TPSA'' \<in> set P \<longrightarrow>
              map_of (results r) ''TPSA'' =
                Some (success_entry ''TPSA'' (py_round (TPSA L mol True) 2))) \<and>
           (''WLogP'' \<in> set P \<longrightarrow>
              map_of (results r) ''WLogP'' =
                Some (success_entry ''WLogP'' (py_round (MolLogP L mol) 2))) \<and>
           (\<exists>k::int. py_round (TPSA L mol True) 2 = of_int k / 100) \<and>
           \<bar>py_round (TPSA L mol True) 2 - TPSA L mol True\<bar> \<le> 1 / 200 \<and>
           (\<exists>k::int. py_round (MolLogP L mol) 2 = of_int k / 100) \<and>
           \<bar>py_round (MolLogP L mol) 2 - MolLogP L mol\<bar> \<le> 1 / 200"
proof -
  from pmp_success [OF assms]
  obtain r where r: "process_multiple_properties L smi P s = (Inr (Dict r), s)"
    "map_of (results r) ''BBB'' =
       (if ''BBB'' \<in> set P then Some (success_entry ''BBB'' (if in_bbb then 1 else 0)) else None)"
    "map_of (results r) ''GIA'' =
       (if ''GIA'' \<in> set P then Some (success_entry ''GIA'' (if in_gia then 1 else 0)) else None)"
    "map_of (results r) ''TPSA'' =
       (if ''TPSA'' \<in> set P then Some (success_entry ''TPSA'' (fst (point_of L mol))) else None)"
    "map_of (results r) ''WLogP'' =
       (if ''WLogP'' \<in> set P then Some (success_entry ''WLogP'' (snd (point_of L mol))) else None)"
    by blast
  have g1: "\<exists>k::int. py_round (TPSA L mol True) 2 = of_int k / 100"
    using py_round_grid [of "TPSA L mol True" 2] by simp
  have g2: "\<exists>k::int. py_round (MolLogP L mol) 2 = of_int k / 100"
    using py_round_grid [of "MolLogP L mol" 2] by simp
  have e1: "\<bar>py_round (TPSA L mol True) 2 - TPSA L mol True\<bar> \<le> 1 / 200"
    using py_round_error [of "TPSA L mol True" 2] by simp
  have e2: "\<bar>py_round (MolLogP L mol) 2 - MolLogP L mol\<bar> \<le> 1 / 200"
    using py_round_error [of "MolLogP L mol" 2] by simp
  have "fst (process_multiple_properties L smi P s) = Inr (Dict r)" using r(1) by simp
  moreover have "''BBB'' \<in> set P \<longrightarrow>
      map_of (results r) ''BBB'' = Some (success_entry ''BBB'' (if in_bbb then 1 else 0))"
    using r(2) by simp
  moreover have "''GIA'' \<in> set P \<longrightarrow>
      map_of (results r) ''GIA'' = Some (success_entry ''GIA'' (if in_gia then 1 else 0))"
    using r(3) by simp
  moreover have "''TPSA'' \<in> set P \<longrightarrow>
      map_of (results r) ''TPSA'' = Some (success_entry ''TPSA'' (py_round (TPSA L mol True) 2))"
    using r(4) by (simp add: point_of_def)
  moreover have "''WLogP'' \<in> set P \<longrightarrow>
      map_of (results r) ''WLogP'' = Some (success_entry ''WLogP'' (py_round (MolLogP L mol) 2))"
    using r(5) by (simp add: point_of_def)
  ultimately show ?thesis using g1 g2 e1 e2 by blast
qed


theorem classify_values_witness:
  "''c1ccccc1'' \<noteq> [] \<and> MolFromSmiles demo_libs ''c1ccccc1'' = Some ''c1ccccc1'' \<and>
   loaded demo_libs demo_state \<and>
   Point_within demo_libs (point_of demo_libs ''c1ccccc1'') (Some (Polygon_BBB demo_libs)) = Inr True \<and>
   Point_within demo_libs (point_of demo_libs ''c1ccccc1'') (Some (Polygon_GIA demo_libs)) = Inr True \<and>
   (\<exists>r. fst (process_multiple_properties demo_libs ''c1ccccc1''
             [''BBB'', ''GIA'', ''TPSA'', ''WLogP''] demo_state) = Inr (Dict r) \<and>
        map_of (results r) ''BBB'' = Some (success_entry ''BBB'' 1) \<and>
        map_of (results r) ''GIA'' = Some (success_entry ''GIA'' 1) \<and>
        map_of (results r) ''TPSA'' = Some (success_entry ''TPSA'' 0) \<and>
        map_of (results r) ''WLogP'' = Some (success_entry ''WLogP'' (169 / 100)))"
proof -
  have a: "''c1ccccc1'' \<noteq> []" by simp
  have b: "MolFromSmiles demo_libs ''c1ccccc1'' = Some ''c1ccccc1''"
    by (simp add: demo_libs_def)
  have c: "loaded demo_libs demo_state"
    unfolding demo_state_def by (rule loaded_BoiledEggHandler)
  have t: "py_round (TPSA demo_libs ''c1ccccc1'' True) 2 = 0" by code_simp
  have l: "py_round (MolLogP demo_libs ''c1ccccc1'') 2 = 169 / 100" by code_simp
  have p: "point_of demo_libs ''c1ccccc1'' = (0, 169 / 100)"
    by (simp add: point_of_def t l)
  have d: "Point_within demo_libs (point_of demo_libs ''c1ccccc1'') (Some (Polygon_BBB demo_libs))
      = Inr True"
    unfolding p by (simp add: demo_libs_def demo_within_def)
  have e: "Point_within demo_libs (point_of demo_libs ''c1ccccc1'') (Some (Polygon_GIA demo_libs))
      = Inr True"
    unfolding p by (simp add: demo_libs_def demo_within_def)
  from classify_values [where P = "[''BBB'', ''GIA'', ''TPSA'', ''WLogP'']", OF a b c d e]
  obtain r where
    r: "fst (process_multiple_properties demo_libs ''c1ccccc1''
          [''BBB'', ''GIA'', ''TPSA'', ''WLogP''] demo_state) = Inr (Dict r)"
      "''BBB'' \<in> set [''BBB'', ''GIA'', ''TPSA'', ''WLogP''] \<longrightarrow>
         map_of (results r) ''BBB'' = Some (success_entry ''BBB'' (if True then 1 else 0))"
      "''GIA'' \<in> set [''BBB'', ''GIA'', ''TPSA'', ''WLogP''] \<longrightarrow>
         map_of (results r) ''GIA'' = Some (success_entry ''GIA'' (if True then 1 else 0))"
      "''TPSA'' \<in> set [''BBB'', ''GIA'', ''TPSA'', ''WLogP''] \<longrightarrow>
         map_of (results r) ''TPSA'' =
           Some (success_entry ''TPSA'' (py_round (TPSA demo_libs ''c1ccccc1'' True) 2))"
      "''WLogP'' \<in> set [''BBB'', ''GIA'', ''TPSA'', ''WLogP''] \<longrightarrow>
         map_of (results r) ''WLogP'' =
           Some (success_entry ''WLogP'' (py_round (MolLogP demo_libs ''c1ccccc1'') 2))"
    by (elim exE conjE)
  have "map_of (results r) ''BBB'' = Some (success_entry ''BBB'' 1)" using r(2) by simp
  moreover have "map_of (results r) ''GIA'' = Some (success_entry ''GIA'' 1)" using r(3) by simp
  moreover have "map_of (results r) ''TPSA'' = Some (success_entry ''TPSA'' 0)"
    using r(4) unfolding t by simp
  moreover have "map_of (results r) ''WLogP'' = Some (success_entry ''WLogP'' (169 / 100))"
    using r(5) unfolding l by simp
  ultimately show ?thesis using a b c d e r(1) by (intro conjI exI [of _ r])
qed

lemma pmp_captured:
  assumes "smi \<noteq> []" and "MolFromSmiles L smi = Some mol" and "loaded L s"
    and "''BBB'' \<in> set P"
    and "Point_within L (point_of L mol) (Some (Polygon_BBB L)) = Inl msg"
  shows "process_multiple_properties L smi P s =
           (Inr (List [\<lparr>smiles = smi, status = ''error'', results = [], error = Some msg\<rparr>]), s)"
proof -
  have "''BBB'' \<in> set (filter (\<lambda>p. p \<in> set AVAILABLE_PROPERTIES) P)"
    using assms(4) by (simp add: AVAILABLE_PROPERTIES_def)
  from fill_batch_preds_Inl [OF this getitem_loaded(1) [OF assms(3)] assms(5)]
  show ?thesis
    by (simp add: pmp_parsed [OF assms(1,2)] try_body_def)
qed

lemma predict_property_on_list:
  assumes "strip (request_smiles req) = smi" and "smi \<noteq> []"
    and "request_property req = Some P" and "P \<noteq> []"
    and "process_multiple_properties L smi P s = (Inr (List l), s')"
  shows "predict_property L req s = (Inl (Unhandled AttributeError), s')"
proof -
  have "request_smiles req \<noteq> []"
    using assms(1,2) by (auto simp: strip_def)
  then show ?thesis
    using assms by (simp add: predict_property_def)
qed

lemma predict_property_on_success:
  assumes "strip (request_smiles req) = smi" and "smi \<noteq> []"
    and "request_property req = Some P" and "P \<noteq> []"
    and "process_multiple_properties L smi P s = (Inr (Dict r), s')"
    and "status r = ''success''"
  shows "predict_property L req s = (Inr r, s')"
proof -
  have "request_smiles req \<noteq> []"
    using assms(1,2) by (auto simp: strip_def)
  then show ?thesis
    using assms by (simp add: predict_property_def)
qed

text \<open>
  C9. The two ways a call on a parsed molecule ends have different shapes. When the
  containment tests return, the outcome is one record, with status \<^verbatim>\<open>success\<close>, and
  the route \<^verbatim>\<open>/smi\<close> answers with it. When the containment test for BBB raises, the
  exception is captured and the outcome is a Python list holding one record with status
  \<^verbatim>\<open>error\<close>; the route, which calls \<^verbatim>\<open>.get\<close> on the outcome, then ends with an
  unhandled \<^verbatim>\<open>AttributeError\<close> and never reads the status or the message.
\<close>

theorem classify_result_shapes:
  assumes "smi \<noteq> []" and "MolFromSmiles L smi = Some mol" and "loaded L s"
    and "''BBB'' \<in> set P"
    and "strip (request_smiles req) = smi" and "request_property req = Some P"
  shows "(\<not> isl (Point_within L (point_of L mol) (Some (Polygon_BBB L))) \<and>
          (''GIA'' \<in> set P \<longrightarrow> \<not> isl (Point_within L (point_of L mol) (Some (Polygon_GIA L)))) \<longrightarrow>
            (\<exists>r. fst (process_multiple_properties L smi P s) = Inr (Dict r) \<and>
                 status r = ''success'' \<and>
                 fst (predict_property L req s) = Inr r)) \<and>
         (\<forall>msg. Point_within L (point_of L mol) (Some (Polygon_BBB L)) = Inl msg \<longrightarrow>
            fst (process_multiple_properties L smi P s) =
              Inr (List [\<lparr>smiles = smi, status = ''error'', results = [], error = Some msg\<rparr>]) \<and>
            fst (predict_property L req s) = Inl (Unhandled AttributeError))"
proof (intro conjI impI allI)
  assume w: "\<not> isl (Point_within L (point_of L mol) (Some (Polygon_BBB L))) \<and>
    (''GIA'' \<in> set P \<longrightarrow> \<not> isl (Point_within L (point_of L mol) (Some (Polygon_GIA L))))"
  have P: "P \<noteq> []" using assms(4) by auto
  from w have b: "Point_within L (point_of L mol) (Some (Polygon_BBB L)) =
      Inr (projr (Point_within L (point_of L mol) (Some (Polygon_BBB L))))"
    by (simp add: not_isl_Inr)
  from w have g: "''GIA'' \<in> set P \<Longrightarrow> Point_within L (point_of L mol) (Some (Polygon_GIA L)) =
      Inr (projr (Point_within L (point_of L mol) (Some (Polygon_GIA L))))"
    by (simp add: not_isl_Inr)
  from pmp_success [OF assms(1-3) b g]
  obtain r where r: "process_multiple_properties L smi P s = (Inr (Dict r), s)"
    "status r = ''success''"
    by blast
  from predict_property_on_success [OF assms(5) assms(1) assms(6) P r]
  have "fst (predict_property L req s) = Inr r" by simp
  with r show "\<exists>r. fst (process_multiple_properties L smi P s) = Inr (Dict r) \<and>
      status r = ''success'' \<and> fst (predict_property L req s) = Inr r"
    by auto
next
  fix msg
  assume m: "Point_within L (point_of L mol) (Some (Polygon_BBB L)) = Inl msg"
  have P: "P \<noteq> []" using assms(4) by auto
  note c = pmp_captured [OF assms(1-4) m]
  from c show "fst (process_multiple_properties L smi P s) =
      Inr (List [\<lparr>smiles = smi, status = ''error'', results = [], error = Some msg\<rparr>])"
    by simp
  from predict_property_on_list [OF assms(5) assms(1) assms(6) P c]
  show "fst (predict_property L req s) = Inl (Unhandled AttributeError)" by simp
qed

theorem classify_result_shapes_witness:
  "(\<exists>r. fst (process_multiple_properties demo_libs ''CCO'' [''BBB''] demo_state) = Inr (Dict r) \<and>
        status r = ''success'' \<and>
        fst (predict_property demo_libs
               \<lparr>request_smiles = '' CCO '', request_property = Some [''BBB'']\<rparr> demo_state) = Inr r) \<and>
   fst (process_multiple_properties raising_libs ''CCO'' [''BBB'']
          (BoiledEggHandler raising_libs [])) =
     Inr (List [\<lparr>smiles = ''CCO'', status = ''error'', results = [],
                 error = Some ''geometry failure''\<rparr>]) \<and>
   fst (predict_property raising_libs
          \<lparr>request_smiles = '' CCO '', request_property = Some [''BBB'']\<rparr>
          (BoiledEggHandler raising_libs [])) = Inl (Unhandled AttributeError)"
proof -
  let ?req = "\<lparr>request_smiles = '' CCO '', request_property = Some [''BBB'']\<rparr>"
  have a: "''CCO'' \<noteq> []" by simp
  have b: "MolFromSmiles demo_libs ''CCO'' = Some ''CCO''" by (simp add: demo_libs_def)
  have b': "MolFromSmiles raising_libs ''CCO'' = Some ''CCO''"
    by (simp add: raising_libs_def demo_libs_def)
  have c: "loaded demo_libs demo_state"
    unfolding demo_state_def by (rule loaded_BoiledEggHandler)
  have c': "loaded raising_libs (BoiledEggHandler raising_libs [])"
    by (rule loaded_BoiledEggHandler)
  have d: "''BBB'' \<in> set [''BBB'']" by simp
  have e: "strip (request_smiles ?req) = ''CCO''" by (simp add: strip_def isspace_def)
  have f: "request_property ?req = Some [''BBB'']" by simp
  have w: "\<not> isl (Point_within demo_libs (point_of demo_libs ''CCO'') (Some (Polygon_BBB demo_libs)))"
    by (simp add: demo_libs_def demo_within_def)
  have w': "Point_within raising_libs (point_of raising_libs ''CCO'')
      (Some (Polygon_BBB raising_libs)) = Inl ''geometry failure''"
    by (simp add: raising_libs_def)
  from classify_result_shapes [OF a b c d e f] w
  have 1: "\<exists>r. fst (process_multiple_properties demo_libs ''CCO'' [''BBB''] demo_state) = Inr (Dict r) \<and>
      status r = ''success'' \<and> fst (predict_property demo_libs ?req demo_state) = Inr r"
    by simp
  from classify_result_shapes [OF a b' c' d e f] w'
  have 2: "fst (process_multiple_properties raising_libs ''CCO'' [''BBB'']
          (BoiledEggHandler raising_libs [])) =
     Inr (List [\<lparr>smiles = ''CCO'', status = ''error'', results = [],
                 error = Some ''geometry failure''\<rparr>]) \<and>
   fst (predict_property raising_libs ?req (BoiledEggHandler raising_libs [])) =
     Inl (Unhandled AttributeError)"
    by blast
  from 1 2 show ?thesis by (intro conjI) simp_all
qed

lemma fill_results_repeat:
  assumes "map_of bp x = Some v"
    and "map_of (results r) x = Some (success_entry x (float v))"
  shows "fill_results bp (xs @ x # ys) r = fill_results bp (xs @ ys) r"
  using assms(2)
proof (induction xs arbitrary: r)
  case Nil
  have "AList.update x (success_entry x (float v)) (results r) = results r"
    using Nil by (rule AList.update_triv)
  then show ?case
    using assms(1) by (simp add: getitem_def success_entry_def)
next
  case (Cons y xs)
  show ?case
  proof (cases "map_of bp y")
    case None
    then show ?thesis by (simp add: getitem_def)
  next
    case (Some w)
    let ?r = "r\<lparr>results := AList.update y (success_entry y (float w)) (results r)\<rparr>"
    have "map_of (results ?r) x = Some (success_entry x (float v))"
      using Cons.prems Some assms(1) by (auto simp: AList.update_conv')
    from Cons.IH [OF this] show ?thesis
      using Some by (simp add: getitem_def success_entry_def)
  qed
qed

lemma fill_results_duplicate:
  assumes "p \<in> set xs"
  shows "fill_results bp (xs @ p # ys) r = fill_results bp (xs @ ys) r"
  using assms
proof (induction xs arbitrary: r)
  case Nil
  then show ?case by simp
next
  case (Cons y xs)
  show ?case
  proof (cases "map_of bp y")
    case None
    then show ?thesis by (simp add: getitem_def)
  next
    case (Some w)
    let ?r = "r\<lparr>results := AList.update y (success_entry y (float w)) (results r)\<rparr>"
    have step: "\<And>zs. fill_results bp (y # zs) r = fill_results bp zs ?r"
      using Some by (simp add: getitem_def success_entry_def)
    show ?thesis
    proof (cases "p = y")
      case True
      have "map_of (results ?r) y = Some (success_entry y (float w))"
        by (simp add: AList.update_conv')
      from fill_results_repeat [OF Some this, of xs ys] show ?thesis
        using True step [of "xs @ y # ys"] step [of "xs @ ys"] by simp
    next
      case False
      with Cons.prems have "p \<in> set xs" by simp
      from Cons.IH [OF this, of ?r] show ?thesis
        using step [of "xs @ p # ys"] step [of "xs @ ys"] by simp
    qed
  qed
qed

lemma fill_batch_preds_set:
  "set vp = set vp' \<Longrightarrow>
   fill_batch_preds L ms vp t l pt = fill_batch_preds L ms vp' t l pt"
  by (simp only: fill_batch_preds_def)

lemma try_body_duplicate:
  assumes "p \<in> set xs"
  shows "try_body L ms smi (xs @ p # ys) t l pt = try_body L ms smi (xs @ ys) t l pt"
proof -
  have eq: "set (xs @ p # ys) = set (xs @ ys)" using assms by auto
  show ?thesis
    unfolding try_body_def fill_batch_preds_set [OF eq] fill_results_duplicate [OF assms] ..
qed

lemma pmp_duplicate:
  assumes "p \<in> set xs"
  shows "process_multiple_properties L smi (xs @ p # ys) s =
         process_multiple_properties L smi (xs @ ys) s"
proof (cases "p \<in> set AVAILABLE_PROPERTIES")
  case True
  let ?f = "filter (\<lambda>p. p \<in> set AVAILABLE_PROPERTIES)"
  have "p \<in> set (?f xs)" using assms True by simp
  note dup = try_body_duplicate [OF this, of L _ smi "?f ys"]
  have "?f (xs @ p # ys) = ?f xs @ p # ?f ys" using True by simp
  moreover have "?f (xs @ ys) = ?f xs @ ?f ys" by simp
  ultimately show ?thesis
    unfolding process_multiple_properties_def Let_def by (simp only: dup)
next
  case False
  then show ?thesis by (simp add: process_multiple_properties_def Let_def)
qed

lemma fill_results_preserves:
  "fill_results bp vp r = Inr r' \<Longrightarrow>
   smiles r' = smiles r \<and> status r' = status r \<and> error r' = error r \<and>
   fst ` set (results r') = set vp \<union> fst ` set (results r) \<and>
   (distinct (map fst (results r)) \<longrightarrow> distinct (map fst (results r')))"
proof (induction vp arbitrary: r)
  case Nil
  then show ?case by simp
next
  case (Cons p vp)
  from Cons.prems obtain v where v: "getitem bp p = Inr v"
    by (cases "getitem bp p") simp_all
  let ?r = "r\<lparr>results := AList.update p (success_entry p (float v)) (results r)\<rparr>"
  have "fill_results bp vp ?r = Inr r'"
    using Cons.prems v by (simp add: success_entry_def)
  from Cons.IH [OF this] show ?case
    by (auto simp: AList.dom_update AList.distinct_update)
qed

lemma try_body_Inr:
  assumes "try_body L ms smi vp t l pt = Inr r"
  shows "smiles r = smi \<and> status r = ''success'' \<and> error r = None \<and>
         fst ` set (results r) = set vp \<and> distinct (map fst (results r))"
proof -
  from assms obtain bp where
    "fill_results bp vp \<lparr>smiles = smi, status = ''success'', results = [], error = None\<rparr> = Inr r"
    by (auto simp: try_body_def split: sum.splits)
  from fill_results_preserves [OF this] show ?thesis by simp
qed

lemma pmp_Dict:
  assumes "fst (process_multiple_properties L smi P s) = Inr (Dict r)"
  shows "smiles r = smi \<and> status r = ''success'' \<and> error r = None \<and>
         fst ` set (results r) = set P \<inter> set AVAILABLE_PROPERTIES \<and>
         distinct (map fst (results r))"
proof -
  from assms obtain mol t l pt where
    "try_body L (models s) smi (filter (\<lambda>p. p \<in> set AVAILABLE_PROPERTIES) P) t l pt = Inr r"
    by (auto simp: process_multiple_properties_def Let_def
        split: if_splits option.splits sum.splits)
  from try_body_Inr [OF this] show ?thesis
    by (simp only: valid_props_set) 
qed

lemma pmp_List:
  assumes "fst (process_multiple_properties L smi P s) = Inr (List rs)"
  shows "rs = [] \<and> smi = [] \<or>
         (\<exists>msg. rs = [\<lparr>smiles = smi, status = ''error'', results = [], error = Some msg\<rparr>])"
  using assms
  by (auto simp: process_multiple_properties_def Let_def
      split: if_splits option.splits sum.splits)


lemma fill_batch_preds_keys:
  assumes "fill_batch_preds L ms vp t l pt = Inr bp"
    and "set vp \<subseteq> set AVAILABLE_PROPERTIES"
  shows "\<forall>p\<in>set vp. \<exists>v. map_of bp p = Some v"
proof
  fix p assume p: "p \<in> set vp"
  with assms(2) have "p = ''BBB'' \<or> p = ''GIA'' \<or> p = ''TPSA'' \<or> p = ''WLogP''"
    by (auto simp: AVAILABLE_PROPERTIES_def)
  with p assms(1) show "\<exists>v. map_of bp p = Some v"
    by (auto simp: fill_batch_preds_def region_pred_def Let_def AList.update_conv'
        split: sum.splits if_splits)
qed

lemma res_entry_eq_refl: "res_entry_eq r r"
  by (simp add: res_entry_eq_def)

lemma try_body_set:
  assumes eq: "set vp' = set vp" and sub: "set vp \<subseteq> set AVAILABLE_PROPERTIES"
  shows "(\<exists>msg. try_body L ms smi vp' t l pt = Inl msg \<and> try_body L ms smi vp t l pt = Inl msg) \<or>
         (\<exists>r' r. try_body L ms smi vp' t l pt = Inr r' \<and> try_body L ms smi vp t l pt = Inr r \<and>
                 res_entry_eq r' r)"
proof (cases "fill_batch_preds L ms vp t l pt")
  case (Inl msg)
  moreover from Inl have "fill_batch_preds L ms vp' t l pt = Inl msg"
    by (simp only: fill_batch_preds_set [OF eq])
  ultimately show ?thesis by (simp add: try_body_def)
next
  case (Inr bp)
  have bp': "fill_batch_preds L ms vp' t l pt = Inr bp"
    using Inr by (simp only: fill_batch_preds_set [OF eq])
  let ?r0 = "\<lparr>smiles = smi, status = ''success'', results = [], error = None\<rparr>"
  from fill_batch_preds_keys [OF Inr sub]
  have k: "\<forall>p\<in>set vp. \<exists>v. map_of bp p = Some v" .
  then have k': "\<forall>p\<in>set vp'. \<exists>v. map_of bp p = Some v" by (simp only: eq)
  have "\<exists>r. fill_results bp vp ?r0 = Inr r \<and> smiles r = smi \<and> status r = ''success'' \<and>
      error r = None \<and>
      map_of (results r) =
        (\<lambda>k. if k \<in> set vp then Some (success_entry k (float (the (map_of bp k)))) else None) \<and>
      fst ` set (results r) = set vp \<and> distinct (map fst (results r))"
    using fill_results_Inr [OF k, of ?r0] by (simp cong: if_cong)
  then obtain r where r: "fill_results bp vp ?r0 = Inr r" "smiles r = smi"
    "status r = ''success''" "error r = None"
    "map_of (results r) =
       (\<lambda>k. if k \<in> set vp then Some (success_entry k (float (the (map_of bp k)))) else None)"
    "distinct (map fst (results r))"
    by blast
  have "\<exists>r. fill_results bp vp' ?r0 = Inr r \<and> smiles r = smi \<and> status r = ''success'' \<and>
      error r = None \<and>
      map_of (results r) =
        (\<lambda>k. if k \<in> set vp' then Some (success_entry k (float (the (map_of bp k)))) else None) \<and>
      fst ` set (results r) = set vp' \<and> distinct (map fst (results r))"
    using fill_results_Inr [OF k', of ?r0] by (simp cong: if_cong)
  then obtain r' where r': "fill_results bp vp' ?r0 = Inr r'" "smiles r' = smi"
    "status r' = ''success''" "error r' = None"
    "map_of (results r') =
       (\<lambda>k. if k \<in> set vp' then Some (success_entry k (float (the (map_of bp k)))) else None)"
    "distinct (map fst (results r'))"
    by blast
  have "map_of (results r') = map_of (results r)"
    unfolding r(5) r'(5) eq ..
  then have "set (results r') = set (results r)"
    using r(6) r'(6) by (simp add: map_of_inject_set)
  then have "res_entry_eq r' r"
    using r(2-4) r'(2-4) by (simp add: res_entry_eq_def)
  moreover have "try_body L ms smi vp t l pt = Inr r"
    using Inr r(1) by (simp add: try_body_def)
  moreover have "try_body L ms smi vp' t l pt = Inr r'"
    using bp' r'(1) by (simp add: try_body_def)
  ultimately show ?thesis by blast
qed

lemma pmp_set:
  assumes "set P' = set P"
  shows "py_eq (fst (process_multiple_properties L smi P' s))
               (fst (process_multiple_properties L smi P s))"
proof (cases "smi = []")
  case True
  then show ?thesis by (simp add: pmp_empty)
next
  case False
  show ?thesis
  proof (cases "MolFromSmiles L smi")
    case None
    then show ?thesis using False by (simp add: pmp_unparseable)
  next
    case (Some mol)
    let ?f = "filter (\<lambda>p. p \<in> set AVAILABLE_PROPERTIES)"
    have eq: "set (?f P') = set (?f P)" using assms by simp
    have sub: "set (?f P) \<subseteq> set AVAILABLE_PROPERTIES" by auto
    from try_body_set [OF eq sub, of L "models s" smi "fst (point_of L mol)"
        "snd (point_of L mol)" "point_of L mol"]
    show ?thesis
      by (auto simp: pmp_parsed [OF False Some] res_entry_eq_refl)
  qed
qed


text \<open>
  C10. Repeating a name that already stands earlier in the property list changes
  nothing: outcome and state are those of the list without the repeat. Two property
  lists with the same names, in whatever order and number, give outcomes that are equal
  as Python values. The results of a record never have two entries for one name, and
  every key is one of BBB, GIA, TPSA and WLogP.
\<close>

theorem classify_ignores_duplicates:
  "(p \<in> set xs \<longrightarrow>
      process_multiple_properties L smi (xs @ p # ys) s =
      process_multiple_properties L smi (xs @ ys) s) \<and>
   (set P' = set P \<longrightarrow>
      py_eq (fst (process_multiple_properties L smi P' s))
            (fst (process_multiple_properties L smi P s))) \<and>
   (\<forall>r. fst (process_multiple_properties L smi P s) = Inr (Dict r) \<longrightarrow>
      distinct (map fst (results r)) \<and> fst ` set (results r) \<subseteq> set AVAILABLE_PROPERTIES)"
proof (intro conjI impI allI)
  assume "p \<in> set xs"
  then show "process_multiple_properties L smi (xs @ p # ys) s =
      process_multiple_properties L smi (xs @ ys) s"
    by (rule pmp_duplicate)
next
  assume "set P' = set P"
  then show "py_eq (fst (process_multiple_properties L smi P' s))
      (fst (process_multiple_properties L smi P s))"
    by (rule pmp_set)
next
  fix r assume "fst (process_multiple_properties L smi P s) = Inr (Dict r)"
  from pmp_Dict [OF this] show "distinct (map fst (results r))" by simp
next
  fix r assume "fst (process_multiple_properties L smi P s) = Inr (Dict r)"
  from pmp_Dict [OF this] show "fst ` set (results r) \<subseteq> set AVAILABLE_PROPERTIES" by simp
qed

theorem classify_ignores_duplicates_witness:
  "process_multiple_properties demo_libs ''CCO'' [''TPSA'', ''BBB'', ''TPSA''] demo_state =
     process_multiple_properties demo_libs ''CCO'' [''TPSA'', ''BBB''] demo_state \<and>
   py_eq (fst (process_multiple_properties demo_libs ''CCO'' [''BBB'', ''TPSA'', ''BBB''] demo_state))
         (fst (process_multiple_properties demo_libs ''CCO'' [''TPSA'', ''BBB''] demo_state)) \<and>
   (\<exists>r. fst (process_multiple_properties demo_libs ''CCO'' [''TPSA'', ''BBB''] demo_state) =
          Inr (Dict r) \<and>
        distinct (map fst (results r)) \<and> fst ` set (results r) \<subseteq> set AVAILABLE_PROPERTIES)"
proof -
  note T = classify_ignores_duplicates [where p = "''TPSA''" and xs = "[''TPSA'', ''BBB'']"
      and ys = "[]" and L = demo_libs and smi = "''CCO''" and s = demo_state
      and P' = "[''BBB'', ''TPSA'', ''BBB'']" and P = "[''TPSA'', ''BBB'']"]
  have 1: "process_multiple_properties demo_libs ''CCO'' [''TPSA'', ''BBB'', ''TPSA''] demo_state =
     process_multiple_properties demo_libs ''CCO'' [''TPSA'', ''BBB''] demo_state"
    using T by simp
  have "set [''BBB'', ''TPSA'', ''BBB''] = set [''TPSA'', ''BBB'']" by auto
  with T have 2: "py_eq
      (fst (process_multiple_properties demo_libs ''CCO'' [''BBB'', ''TPSA'', ''BBB''] demo_state))
      (fst (process_multiple_properties demo_libs ''CCO'' [''TPSA'', ''BBB''] demo_state))"
    by blast
  have a: "''CCO'' \<noteq> []" by simp
  have b: "MolFromSmiles demo_libs ''CCO'' = Some ''CCO''" by (simp add: demo_libs_def)
  have c: "loaded demo_libs demo_state"
    unfolding demo_state_def by (rule loaded_BoiledEggHandler)
  have pt: "point_of demo_libs ''CCO'' = (2023 / 100, 0)" by code_simp
  have d: "Point_within demo_libs (point_of demo_libs ''CCO'') (Some (Polygon_BBB demo_libs)) =
      Inr True"
    unfolding pt by (simp add: demo_libs_def demo_within_def)
  have e: "Point_within demo_libs (point_of demo_libs ''CCO'') (Some (Polygon_GIA demo_libs)) =
      Inr True"
    unfolding pt by (simp add: demo_libs_def demo_within_def)
  from pmp_success [where P = "[''TPSA'', ''BBB'']", OF a b c d e]
  obtain r where r: "process_multiple_properties demo_libs ''CCO'' [''TPSA'', ''BBB''] demo_state =
      (Inr (Dict r), demo_state)"
    by (elim exE conjE)
  then have r': "fst (process_multiple_properties demo_libs ''CCO'' [''TPSA'', ''BBB''] demo_state) =
      Inr (Dict r)" by simp
  with T have "distinct (map fst (results r)) \<and> fst ` set (results r) \<subseteq> set AVAILABLE_PROPERTIES"
    by blast
  with r' have 3: "\<exists>r. fst (process_multiple_properties demo_libs ''CCO'' [''TPSA'', ''BBB'']
        demo_state) = Inr (Dict r) \<and>
      distinct (map fst (results r)) \<and> fst ` set (results r) \<subseteq> set AVAILABLE_PROPERTIES"
    by blast
  from 1 2 3 show ?thesis by (intro conjI)
qed

lemma pmp_returns:
  "fst (process_multiple_properties L smi P s) = Inr r \<Longrightarrow>
   process_multiple_properties L smi P s = (Inr r, s)"
  using pmp_Inr_state [of L smi P s r] by (cases "process_multiple_properties L smi P s") simp

lemma batch_loop_all_return:
  assumes "\<forall>smi\<in>set smis. \<exists>r. fst (process_multiple_properties L smi P s) = Inr r"
  shows "batch_loop L smis P acc s =
           (Inr (acc @ map (\<lambda>smi. projr (fst (process_multiple_properties L smi P s))) smis), s)"
  using assms
proof (induction smis arbitrary: acc)
  case Nil
  then show ?case by simp
next
  case (Cons smi smis)
  from Cons.prems obtain r where "fst (process_multiple_properties L smi P s) = Inr r" by auto
  then have r: "process_multiple_properties L smi P s = (Inr r, s)" by (rule pmp_returns)
  from Cons.prems have "\<forall>smi\<in>set smis. \<exists>r. fst (process_multiple_properties L smi P s) = Inr r"
    by simp
  from Cons.IH [OF this, of "acc @ [r]"] show ?case using r by simp
qed

lemma batch_loop_Inr_state:
  "fst (batch_loop L smis P acc s) = Inr rs \<Longrightarrow> snd (batch_loop L smis P acc s) = s"
proof (induction smis arbitrary: acc)
  case Nil
  then show ?case by simp
next
  case (Cons smi smis)
  show ?case
  proof (cases "fst (process_multiple_properties L smi P s)")
    case (Inl e)
    then have "fst (batch_loop L (smi # smis) P acc s) = Inl e"
      by (cases "process_multiple_properties L smi P s") simp
    with Cons.prems show ?thesis by simp
  next
    case (Inr r)
    then have r: "process_multiple_properties L smi P s = (Inr r, s)" by (rule pmp_returns)
    with Cons.prems have "fst (batch_loop L smis P (acc @ [r]) s) = Inr rs" by simp
    from Cons.IH [OF this] show ?thesis using r by simp
  qed
qed

lemma batch_loop_acc:
  "fst (batch_loop L smis P acc s) = map_sum id ((@) acc) (fst (batch_loop L smis P [] s))"
proof (induction smis arbitrary: acc s)
  case Nil
  then show ?case by simp
next
  case (Cons smi smis)
  show ?case
  proof (cases "process_multiple_properties L smi P s")
    case (Pair out s')
    show ?thesis
    proof (cases out)
      case (Inl e)
      with Pair show ?thesis by simp
    next
      case (Inr r)
      have "fst (batch_loop L smis P (acc @ [r]) s') =
          map_sum id ((@) (acc @ [r])) (fst (batch_loop L smis P [] s'))"
        by (rule Cons.IH)
      moreover have "fst (batch_loop L smis P ([] @ [r]) s') =
          map_sum id ((@) ([] @ [r])) (fst (batch_loop L smis P [] s'))"
        by (rule Cons.IH)
      ultimately show ?thesis
        using Pair Inr by (cases "fst (batch_loop L smis P [] s')") simp_all
    qed
  qed
qed

lemma batch_loop_append:
  "batch_loop L (xs @ ys) P acc s =
     (case batch_loop L xs P acc s of
        (Inl e, s') \<Rightarrow> (Inl e, s')
      | (Inr rs, s') \<Rightarrow> batch_loop L ys P rs s')"
  by (induction xs arbitrary: acc s) (auto split: prod.splits sum.splits)

lemma batch_isolated:
  assumes "fst (process_multiple_properties L smi P s) = Inr e"
  shows "fst (process_multiple_properties_batch L (xs @ smi # ys) P s) =
           (case fst (process_multiple_properties_batch L xs P s) of
              Inl x \<Rightarrow> Inl x
            | Inr rx \<Rightarrow>
                (case fst (process_multiple_properties_batch L ys P s) of
                   Inl x \<Rightarrow> Inl x
                 | Inr ry \<Rightarrow> Inr (rx @ e # ry)))"
proof (cases "fst (batch_loop L xs P [] s)")
  case (Inl x)
  then show ?thesis
    by (cases "batch_loop L xs P [] s")
      (simp add: process_multiple_properties_batch_def batch_loop_append)
next
  case (Inr rx)
  from batch_loop_Inr_state [OF Inr] Inr have xs: "batch_loop L xs P [] s = (Inr rx, s)"
    by (cases "batch_loop L xs P [] s") simp
  from assms have r: "process_multiple_properties L smi P s = (Inr e, s)" by (rule pmp_returns)
  have "fst (batch_loop L (xs @ smi # ys) P [] s) = fst (batch_loop L ys P (rx @ [e]) s)"
    using xs r by (simp add: batch_loop_append)
  also have "\<dots> = map_sum id ((@) (rx @ [e])) (fst (batch_loop L ys P [] s))"
    by (rule batch_loop_acc)
  finally show ?thesis
    using Inr
    by (cases "fst (batch_loop L ys P [] s)") (simp_all add: process_multiple_properties_batch_def)
qed

lemma pmp_TPSA_only:
  assumes "smi \<noteq> []" and "MolFromSmiles L smi = Some mol"
  shows "process_multiple_properties L smi [''TPSA''] s =
           (Inr (Dict \<lparr>smiles = smi, status = ''success'',
                       results = [(''TPSA'', success_entry ''TPSA'' (py_round (TPSA L mol True) 2))],
                       error = None\<rparr>), s)"
  by (simp add: pmp_parsed [OF assms] try_body_def fill_batch_preds_def AVAILABLE_PROPERTIES_def
      getitem_def point_of_def success_entry_def Let_def)

lemma batch_example:
  assumes "MolFromSmiles L ''CCO'' = Some m1" and "MolFromSmiles L ''c1ccccc1'' = Some m2"
  shows "fst (process_multiple_properties_batch L [''CCO'', [], ''c1ccccc1''] [''TPSA''] s) =
           Inr [Dict \<lparr>smiles = ''CCO'', status = ''success'',
                      results = [(''TPSA'', success_entry ''TPSA'' (py_round (TPSA L m1 True) 2))],
                      error = None\<rparr>,
                List [],
                Dict \<lparr>smiles = ''c1ccccc1'', status = ''success'',
                      results = [(''TPSA'', success_entry ''TPSA'' (py_round (TPSA L m2 True) 2))],
                      error = None\<rparr>]"
proof -
  have a: "''CCO'' \<noteq> []" and b: "''c1ccccc1'' \<noteq> []" by simp_all
  show ?thesis
    by (simp add: process_multiple_properties_batch_def pmp_TPSA_only [OF a assms(1)]
        pmp_TPSA_only [OF b assms(2)] pmp_empty)
qed

lemma pmp_smiles:
  assumes "fst (process_multiple_properties L smi P s) = Inr v"
  shows "case v of Dict r \<Rightarrow> smiles r = smi | List l \<Rightarrow> \<forall>r\<in>set l. smiles r = smi"
proof (cases v)
  case (Dict r)
  with assms pmp_Dict [of L smi P s r] show ?thesis by simp
next
  case (List l)
  with assms pmp_List [of L smi P s l] show ?thesis by auto
qed

lemma batch_all_return:
  assumes "\<forall>smi\<in>set smis. \<exists>r. fst (process_multiple_properties L smi P s) = Inr r"
  shows "fst (process_multiple_properties_batch L smis P s) =
           Inr (map (\<lambda>smi. projr (fst (process_multiple_properties L smi P s))) smis)"
  by (simp add: process_multiple_properties_batch_def batch_loop_all_return [OF assms])

text \<open>
  C4. When every call of the handler on an input returns, the batch returns a list with
  one entry per input, in the order of the inputs: entry \<open>i\<close> is what the handler
  returns for input \<open>i\<close>. An entry that is a record has the input as its \<^verbatim>\<open>smiles\<close>; an
  entry that is a list (empty for the empty string, one error record for a captured
  exception) holds no record with another \<^verbatim>\<open>smiles\<close>. When every call returns a record,
  count and order of the \<^verbatim>\<open>smiles\<close> fields are those of the inputs.
\<close>

theorem batch_length_and_order:
  "((\<forall>smi\<in>set smis. \<exists>v. fst (process_multiple_properties L smi P s) = Inr v) \<longrightarrow>
      (\<exists>rs. fst (process_multiple_properties_batch L smis P s) = Inr rs \<and>
            length rs = length smis \<and>
            (\<forall>i<length smis.
               fst (process_multiple_properties L (smis ! i) P s) = Inr (rs ! i) \<and>
               (case rs ! i of
                  Dict r \<Rightarrow> smiles r = smis ! i
                | List l \<Rightarrow> \<forall>r\<in>set l. smiles r = smis ! i)))) \<and>
   ((\<forall>smi\<in>set smis. \<exists>r. fst (process_multiple_properties L smi P s) = Inr (Dict r)) \<longrightarrow>
      order_and_count_preserved smis (fst (process_multiple_properties_batch L smis P s)))"
proof (intro conjI impI)
  assume all: "\<forall>smi\<in>set smis. \<exists>v. fst (process_multiple_properties L smi P s) = Inr v"
  let ?rs = "map (\<lambda>smi. projr (fst (process_multiple_properties L smi P s))) smis"
  have "\<forall>i<length smis.
      fst (process_multiple_properties L (smis ! i) P s) = Inr (?rs ! i) \<and>
      (case ?rs ! i of
         Dict r \<Rightarrow> smiles r = smis ! i
       | List l \<Rightarrow> \<forall>r\<in>set l. smiles r = smis ! i)"
  proof (intro allI impI)
    fix i assume i: "i < length smis"
    with all obtain v where v: "fst (process_multiple_properties L (smis ! i) P s) = Inr v"
      by (meson nth_mem)
    then have "?rs ! i = v" using i by simp
    with v pmp_smiles [OF v]
    show "fst (process_multiple_properties L (smis ! i) P s) = Inr (?rs ! i) \<and>
      (case ?rs ! i of
         Dict r \<Rightarrow> smiles r = smis ! i
       | List l \<Rightarrow> \<forall>r\<in>set l. smiles r = smis ! i)"
      by simp
  qed
  with batch_all_return [OF all]
  show "\<exists>rs. fst (process_multiple_properties_batch L smis P s) = Inr rs \<and>
      length rs = length smis \<and>
      (\<forall>i<length smis.
         fst (process_multiple_properties L (smis ! i) P s) = Inr (rs ! i) \<and>
         (case rs ! i of
            Dict r \<Rightarrow> smiles r = smis ! i
          | List l \<Rightarrow> \<forall>r\<in>set l. smiles r = smis ! i))"
    by (intro exI [of _ ?rs]) simp
next
  assume dicts: "\<forall>smi\<in>set smis. \<exists>r. fst (process_multiple_properties L smi P s) = Inr (Dict r)"
  then have all: "\<forall>smi\<in>set smis. \<exists>v. fst (process_multiple_properties L smi P s) = Inr v"
    by blast
  have "map smiles_field (map (\<lambda>smi. projr (fst (process_multiple_properties L smi P s))) smis) =
      map Some smis"
  proof (rule nth_equalityI)
    show "length (map smiles_field
        (map (\<lambda>smi. projr (fst (process_multiple_properties L smi P s))) smis)) =
        length (map Some smis)"
      by simp
  next
    fix i assume "i < length (map smiles_field
        (map (\<lambda>smi. projr (fst (process_multiple_properties L smi P s))) smis))"
    then have i: "i < length smis" by simp
    with dicts obtain r where r: "fst (process_multiple_properties L (smis ! i) P s) = Inr (Dict r)"
      by (meson nth_mem)
    from pmp_Dict [OF r] have "smiles r = smis ! i" by simp
    with r i show "map smiles_field
        (map (\<lambda>smi. projr (fst (process_multiple_properties L smi P s))) smis) ! i =
        map Some smis ! i"
      by simp
  qed
  then show "order_and_count_preserved smis (fst (process_multiple_properties_batch L smis P s))"
    by (simp add: batch_all_return [OF all] order_and_count_preserved_def)
qed

theorem batch_empty_string_no_smiles:
  "\<not> order_and_count_preserved [[]]
       (fst (process_multiple_properties_batch demo_libs [[]] [''TPSA''] demo_state))"
  by (simp add: process_multiple_properties_batch_def pmp_empty order_and_count_preserved_def)


theorem batch_length_and_order_witness:
  "(\<exists>v. fst (process_multiple_properties demo_libs ''CCO'' [''TPSA''] demo_state) = Inr v) \<and>
   (\<exists>v. fst (process_multiple_properties demo_libs [] [''TPSA''] demo_state) = Inr v) \<and>
   (\<exists>v. fst (process_multiple_properties demo_libs ''c1ccccc1'' [''TPSA''] demo_state) = Inr v) \<and>
   (\<exists>rs. fst (process_multiple_properties_batch demo_libs [''CCO'', [], ''c1ccccc1''] [''TPSA'']
              demo_state) = Inr rs \<and>
         length rs = length [''CCO'', [], ''c1ccccc1''] \<and>
         (\<forall>i<length [''CCO'', [], ''c1ccccc1''].
            fst (process_multiple_properties demo_libs ([''CCO'', [], ''c1ccccc1''] ! i) [''TPSA'']
                   demo_state) = Inr (rs ! i) \<and>
            (case rs ! i of
               Dict r \<Rightarrow> smiles r = [''CCO'', [], ''c1ccccc1''] ! i
             | List l \<Rightarrow> \<forall>r\<in>set l. smiles r = [''CCO'', [], ''c1ccccc1''] ! i))) \<and>
   order_and_count_preserved [''CCO'', ''c1ccccc1'']
     (fst (process_multiple_properties_batch demo_libs [''CCO'', ''c1ccccc1''] [''TPSA''] demo_state))"
proof -
  have a: "''CCO'' \<noteq> []" and b: "''c1ccccc1'' \<noteq> []" by simp_all
  have pa: "MolFromSmiles demo_libs ''CCO'' = Some ''CCO''" by (simp add: demo_libs_def)
  have pb: "MolFromSmiles demo_libs ''c1ccccc1'' = Some ''c1ccccc1''" by (simp add: demo_libs_def)
  have d1: "\<exists>r. fst (process_multiple_properties demo_libs ''CCO'' [''TPSA''] demo_state) =
      Inr (Dict r)"
    by (simp add: pmp_TPSA_only [OF a pa])
  have d3: "\<exists>r. fst (process_multiple_properties demo_libs ''c1ccccc1'' [''TPSA''] demo_state) =
      Inr (Dict r)"
    by (simp add: pmp_TPSA_only [OF b pb])
  have h1: "\<exists>v. fst (process_multiple_properties demo_libs ''CCO'' [''TPSA''] demo_state) = Inr v"
    using d1 by blast
  have h2: "\<exists>v. fst (process_multiple_properties demo_libs [] [''TPSA''] demo_state) = Inr v"
    by (simp add: pmp_empty)
  have h3: "\<exists>v. fst (process_multiple_properties demo_libs ''c1ccccc1'' [''TPSA''] demo_state) = Inr v"
    using d3 by blast
  have all: "\<forall>smi\<in>set [''CCO'', [], ''c1ccccc1''].
      \<exists>v. fst (process_multiple_properties demo_libs smi [''TPSA''] demo_state) = Inr v"
    using h1 h2 h3 by simp
  have dicts: "\<forall>smi\<in>set [''CCO'', ''c1ccccc1''].
      \<exists>r. fst (process_multiple_properties demo_libs smi [''TPSA''] demo_state) = Inr (Dict r)"
    using d1 d3 by simp
  note 1 = batch_length_and_order [where smis = "[''CCO'', [], ''c1ccccc1'']" and L = demo_libs
      and P = "[''TPSA'']" and s = demo_state, THEN conjunct1, THEN mp, OF all]
  note 2 = batch_length_and_order [where smis = "[''CCO'', ''c1ccccc1'']" and L = demo_libs
      and P = "[''TPSA'']" and s = demo_state, THEN conjunct2, THEN mp, OF dicts]
  show ?thesis by (intro conjI h1 h2 h3 1 2)
qed

text \<open>
  C2. An input whose call returns does not disturb its neighbours in a batch: its entry
  stands between the entries of the inputs before it and those of the inputs after it,
  which are what the batch yields without it. The empty string is such an input, and its
  entry is the empty list. For the three inputs CCO, the empty string and c1ccccc1, with
  TPSA requested and both molecules parsed, the batch has three entries: two records
  with status \<^verbatim>\<open>success\<close> and, between them, the empty list.
\<close>

theorem batch_isolation:
  "(\<forall>e. fst (process_multiple_properties L smi P s) = Inr e \<longrightarrow>
      fst (process_multiple_properties_batch L (xs @ smi # ys) P s) =
        (case fst (process_multiple_properties_batch L xs P s) of
           Inl x \<Rightarrow> Inl x
         | Inr rx \<Rightarrow>
             (case fst (process_multiple_properties_batch L ys P s) of
                Inl x \<Rightarrow> Inl x
              | Inr ry \<Rightarrow> Inr (rx @ e # ry)))) \<and>
   fst (process_multiple_properties L [] P s) = Inr (List []) \<and>
   (MolFromSmiles L ''CCO'' = Some m1 \<and> MolFromSmiles L ''c1ccccc1'' = Some m2 \<longrightarrow>
      fst (process_multiple_properties_batch L [''CCO'', [], ''c1ccccc1''] [''TPSA''] s) =
        Inr [Dict \<lparr>smiles = ''CCO'', status = ''success'',
                   results = [(''TPSA'', success_entry ''TPSA'' (py_round (TPSA L m1 True) 2))],
                   error = None\<rparr>,
             List [],
             Dict \<lparr>smiles = ''c1ccccc1'', status = ''success'',
                   results = [(''TPSA'', success_entry ''TPSA'' (py_round (TPSA L m2 True) 2))],
                   error = None\<rparr>])"
  using batch_isolated [of L smi P s _ xs ys] batch_example [of L m1 m2 s]
  by (simp add: pmp_empty)

theorem batch_isolation_witness:
  "fst (process_multiple_properties_batch demo_libs ([''CCO''] @ [] # [''c1ccccc1'']) [''TPSA'']
          demo_state) =
     (case fst (process_multiple_properties_batch demo_libs [''CCO''] [''TPSA''] demo_state) of
        Inl x \<Rightarrow> Inl x
      | Inr rx \<Rightarrow>
          (case fst (process_multiple_properties_batch demo_libs [''c1ccccc1''] [''TPSA'']
                       demo_state) of
             Inl x \<Rightarrow> Inl x
           | Inr ry \<Rightarrow> Inr (rx @ List [] # ry))) \<and>
   MolFromSmiles demo_libs ''CCO'' = Some ''CCO'' \<and>
   MolFromSmiles demo_libs ''c1ccccc1'' = Some ''c1ccccc1'' \<and>
   fst (process_multiple_properties_batch demo_libs [''CCO'', [], ''c1ccccc1''] [''TPSA'']
          demo_state) =
     Inr [Dict \<lparr>smiles = ''CCO'', status = ''success'',
                results = [(''TPSA'', success_entry ''TPSA'' (2023 / 100))], error = None\<rparr>,
          List [],
          Dict \<lparr>smiles = ''c1ccccc1'', status = ''success'',
                results = [(''TPSA'', success_entry ''TPSA'' 0)], error = None\<rparr>]"
proof -
  have pa: "MolFromSmiles demo_libs ''CCO'' = Some ''CCO''" by (simp add: demo_libs_def)
  have pb: "MolFromSmiles demo_libs ''c1ccccc1'' = Some ''c1ccccc1''" by (simp add: demo_libs_def)
  have ta: "py_round (TPSA demo_libs ''CCO'' True) 2 = 2023 / 100" by code_simp
  have tb: "py_round (TPSA demo_libs ''c1ccccc1'' True) 2 = 0" by code_simp
  note T = batch_isolation [where L = demo_libs and smi = "[]" and P = "[''TPSA'']"
      and s = demo_state and xs = "[''CCO'']" and ys = "[''c1ccccc1'']"
      and ?m1.0 = "''CCO''" and ?m2.0 = "''c1ccccc1''"]
  from T have e: "fst (process_multiple_properties demo_libs [] [''TPSA''] demo_state) =
      Inr (List [])"
    by (elim conjE)
  from T e have 1: "fst (process_multiple_properties_batch demo_libs
        ([''CCO''] @ [] # [''c1ccccc1'']) [''TPSA''] demo_state) =
     (case fst (process_multiple_properties_batch demo_libs [''CCO''] [''TPSA''] demo_state) of
        Inl x \<Rightarrow> Inl x
      | Inr rx \<Rightarrow>
          (case fst (process_multiple_properties_batch demo_libs [''c1ccccc1''] [''TPSA'']
                       demo_state) of
             Inl x \<Rightarrow> Inl x
           | Inr ry \<Rightarrow> Inr (rx @ List [] # ry)))"
    by blast
  from T pa pb have 2: "fst (process_multiple_properties_batch demo_libs
        [''CCO'', [], ''c1ccccc1''] [''TPSA''] demo_state) =
     Inr [Dict \<lparr>smiles = ''CCO'', status = ''success'',
                results = [(''TPSA'', success_entry ''TPSA'' (2023 / 100))], error = None\<rparr>,
          List [],
          Dict \<lparr>smiles = ''c1ccccc1'', status = ''success'',
                results = [(''TPSA'', success_entry ''TPSA'' 0)], error = None\<rparr>]"
    unfolding ta tb by blast
  show ?thesis by (intro conjI 1 pa pb 2)
qed

theorem batch_empty_string_not_error:
  "batch_statuses
     (fst (process_multiple_properties_batch demo_libs [''CCO'', [], ''c1ccccc1''] [''TPSA'']
             demo_state)) \<noteq>
   Some [Some ''success'', Some ''error'', Some ''success'']"
proof -
  have pa: "MolFromSmiles demo_libs ''CCO'' = Some ''CCO''" by (simp add: demo_libs_def)
  have pb: "MolFromSmiles demo_libs ''c1ccccc1'' = Some ''c1ccccc1''" by (simp add: demo_libs_def)
  show ?thesis
    by (simp add: batch_example [OF pa pb] batch_statuses_def)
qed

end
